theory Spec2Isabelle
  imports Complex_Main "HOL-Library.Multiset"
begin

section \<open>Values, rows and responses\<close>

text \<open>
  The upload validation of the onboarding wizard lives in the handler of
  \<^verbatim>\<open>POST /api/analyze/data\<close> (server routes) and in \<^verbatim>\<open>MemStorage\<close> (server storage).
  The handler picks the most recent uploaded file, lets Papa Parse or SheetJS turn it into
  \<^verbatim>\<open>parsedData\<close> (an array of row objects) and \<^verbatim>\<open>columns\<close> (the header names), and from
  there on is plain code over these two values. The embedding starts at that point:
  \<^verbatim>\<open>parsedData\<close> and \<^verbatim>\<open>columns\<close> are the inputs.

  Strings are byte strings in UTF-8. The handler only compares with ASCII words, searches
  for an ASCII word, tests membership in an ASCII character class and converts to a number,
  so the bytes of a character beyond ASCII behave as its UTF-16 code units do in the source.
\<close>

text \<open>A JavaScript number: NaN, an infinity with its sign (\<open>True\<close> is positive), or a finite value.\<close>

datatype jsnum = JNaN | JInf bool | JFin rat

text \<open>
  A cell of a parsed row. Papa Parse (with \<^verbatim>\<open>header: true\<close> and no dynamic typing) gives
  strings only; SheetJS gives numbers, strings and booleans. The source types rows as
  \<^verbatim>\<open>any\<close> and tests for \<^verbatim>\<open>undefined\<close> and \<^verbatim>\<open>null\<close> itself, so both are values here.
\<close>

datatype cell = CUndefined | CNull | CBool bool | CNum jsnum | CStr string

text \<open>
  A row object: its own properties in the order \<^verbatim>\<open>Object.keys\<close> lists them. A JavaScript
  object has no duplicate keys; with a duplicate, the first entry is the one both
  \<^verbatim>\<open>find\<close> and the property read below see.
\<close>

type_synonym row = "(string \<times> cell) list"

definition objectKeys :: "row \<Rightarrow> string list" where
  "objectKeys r = map fst r"

text \<open>\<^verbatim>\<open>row[key]\<close>: the property, or \<^verbatim>\<open>undefined\<close> when there is none.\<close>

definition rowGet :: "row \<Rightarrow> string \<Rightarrow> cell" where
  "rowGet r k = (case map_of r k of Some v \<Rightarrow> v | None \<Rightarrow> CUndefined)"

text \<open>JavaScript truthiness, as used by \<^verbatim>\<open>!row[dateCol]\<close> and \<^verbatim>\<open>filter(Boolean)\<close>.\<close>

fun truthy :: "cell \<Rightarrow> bool" where
  "truthy CUndefined = False"
| "truthy CNull = False"
| "truthy (CBool b) = b"
| "truthy (CNum n) = (case n of JNaN \<Rightarrow> False | JInf _ \<Rightarrow> True | JFin q \<Rightarrow> q \<noteq> 0)"
| "truthy (CStr s) = (s \<noteq> [])"

record validationError =
  row :: nat
  column :: string
  message :: string

record dataSummary =
  timePeriod :: string
  dataPoints :: nat
  channels :: nat

text \<open>
  \<^verbatim>\<open>DataValidationResponse\<close> of the shared schema: every field but \<^verbatim>\<open>status\<close> is optional,
  and \<open>None\<close> is the field left out (or \<^verbatim>\<open>undefined\<close>, which JSON leaves out too).
\<close>

record dataValidationResponse =
  status :: string
  errors :: "validationError list option"
  summary :: "dataSummary option"
  preview :: "row list option"
  columns :: "string list option"

text \<open>
  What the handler sends: \<^verbatim>\<open>res.json(...)\<close> with an analysis result, or, from the
  \<^verbatim>\<open>catch\<close> block, \<^verbatim>\<open>res.status(400).json({status: "error", message})\<close>.
\<close>

datatype response = Json dataValidationResponse | Failure nat string

section \<open>String helpers of the handler\<close>

definition toLowerChar :: "char \<Rightarrow> char" where
  "toLowerChar c =
     (case map_of (zip ''ABCDEFGHIJKLMNOPQRSTUVWXYZ'' ''abcdefghijklmnopqrstuvwxyz'') c of
        Some l \<Rightarrow> l
      | None \<Rightarrow> c)"

text \<open>
  \<^verbatim>\<open>toLowerCase\<close> on the ASCII letters. JavaScript also lowers letters beyond ASCII, but
  none of them becomes a letter of the words the handler compares with, so the
  comparisons below come out as in the source.
\<close>

definition toLowerCase :: "string \<Rightarrow> string" where
  "toLowerCase s = map toLowerChar s"

fun isPrefixOf :: "'a list \<Rightarrow> 'a list \<Rightarrow> bool" where
  "isPrefixOf [] ys = True"
| "isPrefixOf (x # xs) [] = False"
| "isPrefixOf (x # xs) (y # ys) = (x = y \<and> isPrefixOf xs ys)"

text \<open>\<^verbatim>\<open>s.includes(sub)\<close>\<close>

fun includesStr :: "string \<Rightarrow> string \<Rightarrow> bool" where
  "includesStr [] sub = (sub = [])"
| "includesStr (c # cs) sub = (isPrefixOf sub (c # cs) \<or> includesStr cs sub)"

text \<open>\<^verbatim>\<open>s.replace(a, b)\<close> with a string pattern: only the first occurrence is replaced.\<close>

fun replaceFirst :: "char \<Rightarrow> char \<Rightarrow> string \<Rightarrow> string" where
  "replaceFirst a b [] = []"
| "replaceFirst a b (c # cs) = (if c = a then b # cs else c # replaceFirst a b cs)"

section \<open>Number(text) is not NaN\<close>

text \<open>
  \<^verbatim>\<open>isNaN(Number(s))\<close> for a string \<open>s\<close> is decided by the grammar
  \<^verbatim>\<open>StringNumericLiteral\<close> of ECMAScript: optional white space, then nothing (the value is 0)
  or a decimal literal with optional sign, fraction and exponent, \<^verbatim>\<open>Infinity\<close>, or an
  unsigned binary, octal or hexadecimal integer, then optional white space.
\<close>

definition isDecimalDigit :: "char \<Rightarrow> bool" where
  "isDecimalDigit c = (c \<in> set ''0123456789'')"

definition isHexDigit :: "char \<Rightarrow> bool" where
  "isHexDigit c = (c \<in> set ''0123456789abcdefABCDEF'')"

definition isOctalDigit :: "char \<Rightarrow> bool" where
  "isOctalDigit c = (c \<in> set ''01234567'')"

definition isBinaryDigit :: "char \<Rightarrow> bool" where
  "isBinaryDigit c = (c \<in> set ''01'')"

definition decimalDigits :: "string \<Rightarrow> bool" where
  "decimalDigits s = (s \<noteq> [] \<and> list_all isDecimalDigit s)"

definition signedInteger :: "string \<Rightarrow> bool" where
  "signedInteger s =
     (case s of
        [] \<Rightarrow> False
      | c # cs \<Rightarrow> if c = CHR ''+'' \<or> c = CHR ''-'' then decimalDigits cs else decimalDigits s)"

text \<open>The optional exponent part: nothing, or \<^verbatim>\<open>e\<close>/\<^verbatim>\<open>E\<close> and a signed integer.\<close>

definition exponentPartOpt :: "string \<Rightarrow> bool" where
  "exponentPartOpt s =
     (case s of
        [] \<Rightarrow> True
      | c # cs \<Rightarrow> (c = CHR ''e'' \<or> c = CHR ''E'') \<and> signedInteger cs)"

definition strUnsignedDecimalLiteral :: "string \<Rightarrow> bool" where
  "strUnsignedDecimalLiteral s =
     (s = ''Infinity'' \<or>
      (let ip = takeWhile isDecimalDigit s; r = dropWhile isDecimalDigit s in
       case r of
         [] \<Rightarrow> ip \<noteq> []
       | c # cs \<Rightarrow>
           if c = CHR ''.''
           then (ip \<noteq> [] \<or> takeWhile isDecimalDigit cs \<noteq> []) \<and>
                exponentPartOpt (dropWhile isDecimalDigit cs)
           else ip \<noteq> [] \<and> exponentPartOpt r))"

definition strDecimalLiteral :: "string \<Rightarrow> bool" where
  "strDecimalLiteral s =
     (case s of
        [] \<Rightarrow> False
      | c # cs \<Rightarrow>
          if c = CHR ''+'' \<or> c = CHR ''-'' then strUnsignedDecimalLiteral cs
          else strUnsignedDecimalLiteral s)"

definition nonDecimalIntegerLiteral :: "string \<Rightarrow> bool" where
  "nonDecimalIntegerLiteral s =
     (case s of
        z # x # ds \<Rightarrow>
          z = CHR ''0'' \<and> ds \<noteq> [] \<and>
          ((x = CHR ''x'' \<or> x = CHR ''X'') \<and> list_all isHexDigit ds \<or>
           (x = CHR ''o'' \<or> x = CHR ''O'') \<and> list_all isOctalDigit ds \<or>
           (x = CHR ''b'' \<or> x = CHR ''B'') \<and> list_all isBinaryDigit ds)
      | _ \<Rightarrow> False)"

definition strNumericLiteral :: "string \<Rightarrow> bool" where
  "strNumericLiteral s = (strDecimalLiteral s \<or> nonDecimalIntegerLiteral s)"

text \<open>
  The white space and line terminator code points of ECMAScript, each as its UTF-8 bytes:
  U+0009 to U+000D, U+0020, U+00A0, U+1680, U+2000 to U+200A, U+2028, U+2029, U+202F,
  U+205F, U+3000 and U+FEFF.
\<close>

definition strWhiteSpaceChar :: "string list" where
  "strWhiteSpaceChar =
     [[CHR 0x09], [CHR 0x0A], [CHR 0x0B], [CHR 0x0C], [CHR 0x0D], [CHR 0x20],
      [CHR 0xC2, CHR 0xA0],
      [CHR 0xE1, CHR 0x9A, CHR 0x80],
      [CHR 0xE2, CHR 0x80, CHR 0x80], [CHR 0xE2, CHR 0x80, CHR 0x81],
      [CHR 0xE2, CHR 0x80, CHR 0x82], [CHR 0xE2, CHR 0x80, CHR 0x83],
      [CHR 0xE2, CHR 0x80, CHR 0x84], [CHR 0xE2, CHR 0x80, CHR 0x85],
      [CHR 0xE2, CHR 0x80, CHR 0x86], [CHR 0xE2, CHR 0x80, CHR 0x87],
      [CHR 0xE2, CHR 0x80, CHR 0x88], [CHR 0xE2, CHR 0x80, CHR 0x89],
      [CHR 0xE2, CHR 0x80, CHR 0x8A],
      [CHR 0xE2, CHR 0x80, CHR 0xA8], [CHR 0xE2, CHR 0x80, CHR 0xA9],
      [CHR 0xE2, CHR 0x80, CHR 0xAF],
      [CHR 0xE2, CHR 0x81, CHR 0x9F],
      [CHR 0xE3, CHR 0x80, CHR 0x80],
      [CHR 0xEF, CHR 0xBB, CHR 0xBF]]"

text \<open>
  The number of bytes of the white space character a string starts with; 0 when it starts
  with none.
\<close>

definition leadingWhiteSpace :: "string \<Rightarrow> nat" where
  "leadingWhiteSpace s =
     (case find (\<lambda>w. isPrefixOf w s) strWhiteSpaceChar of
        None \<Rightarrow> 0
      | Some w \<Rightarrow> length w)"

fun trimStartFuel :: "nat \<Rightarrow> string \<Rightarrow> string" where
  "trimStartFuel 0 s = s"
| "trimStartFuel (Suc n) s =
     (if leadingWhiteSpace s = 0 then s else trimStartFuel n (drop (leadingWhiteSpace s) s))"

text \<open>
  Dropping the leading white space. Every round removes at least one byte, so
  \<open>length s\<close> rounds reach the end of the white space.
\<close>

definition trimStart :: "string \<Rightarrow> string" where
  "trimStart s = trimStartFuel (length s) s"

text \<open>The characters a numeric literal is made of.\<close>

definition isLiteralChar :: "char \<Rightarrow> bool" where
  "isLiteralChar c =
     (c \<in> set ''0123456789abcdefghijklmnopqrstuvwxyzABCDEFGHIJKLMNOPQRSTUVWXYZ+-.'')"

definition stringNumericLiteral :: "string \<Rightarrow> bool" where
  "stringNumericLiteral s =
     (let t = trimStart s;
          body = takeWhile isLiteralChar t;
          rest = dropWhile isLiteralChar t
      in trimStart rest = [] \<and> (body = [] \<or> strNumericLiteral body))"

text \<open>\<^verbatim>\<open>isNaN(Number(s))\<close> for a string.\<close>

definition stringIsNaN :: "string \<Rightarrow> bool" where
  "stringIsNaN s = (\<not> stringNumericLiteral s)"

text \<open>\<^verbatim>\<open>s.replace(/[$,]/g, '')\<close>\<close>

definition stripCurrency :: "string \<Rightarrow> string" where
  "stripCurrency s = filter (\<lambda>c. c \<noteq> CHR ''$'' \<and> c \<noteq> CHR '','') s"

text \<open>
  \<^verbatim>\<open>isNaN(Number(spend.toString().replace(/[$,]/g, '')))\<close>. The text of a number holds
  neither \<^verbatim>\<open>$\<close> nor a comma and reads back as the same number, so it is NaN only for NaN;
  the text of a boolean is \<^verbatim>\<open>true\<close> or \<^verbatim>\<open>false\<close>, which is no number. The source reaches
  this test only after it has excluded \<^verbatim>\<open>undefined\<close> and \<^verbatim>\<open>null\<close>, whose \<^verbatim>\<open>toString\<close>
  would throw; the handler's \<^verbatim>\<open>catch\<close> is therefore not reached from here.
\<close>

definition spendIsNaN :: "cell \<Rightarrow> bool" where
  "spendIsNaN spend =
     (case spend of
        CStr s \<Rightarrow> stringIsNaN (stripCurrency s)
      | CNum n \<Rightarrow> n = JNaN
      | CBool b \<Rightarrow> True
      | CUndefined \<Rightarrow> True
      | CNull \<Rightarrow> True)"

text \<open>\<^verbatim>\<open>/[^a-zA-Z0-9 _-]/.test(s)\<close>\<close>

definition channelCharAllowed :: "char \<Rightarrow> bool" where
  "channelCharAllowed c =
     (c \<in> set ''abcdefghijklmnopqrstuvwxyzABCDEFGHIJKLMNOPQRSTUVWXYZ0123456789 _-'')"

definition hasSpecialCharacters :: "string \<Rightarrow> bool" where
  "hasSpecialCharacters s = list_ex (\<lambda>c. \<not> channelCharAllowed c) s"

section \<open>The in-memory storage\<close>

text \<open>
  Stored objects are JavaScript objects whose fields the code spreads and overrides
  (\<^verbatim>\<open>{...onboardingData, step, ...data, updatedAt: new Date()}\<close>), so an object is a map
  from field names to values. A date is the clock reading it was made from.
\<close>

datatype jsval =
    JUndefined
  | JNull
  | JBool bool
  | JNumber int
  | JString string
  | JArray "jsval list"
  | JDate nat
  | JErrors "validationError list"

type_synonym jsobj = "string \<rightharpoonup> jsval"

text \<open>\<^verbatim>\<open>obj.field\<close>\<close>

definition jsGet :: "jsobj \<Rightarrow> string \<Rightarrow> jsval" where
  "jsGet obj k = (case obj k of Some v \<Rightarrow> v | None \<Rightarrow> JUndefined)"

text \<open>
  The part of \<^verbatim>\<open>MemStorage\<close> the handler touches after parsing: the users and the
  onboarding records. \<^verbatim>\<open>onboardingData\<close> is a JavaScript \<^verbatim>\<open>Map\<close>: its entries in
  insertion order.
\<close>

record memStorage =
  users :: "int \<rightharpoonup> jsobj"
  onboardingData :: "(jsval \<times> jsobj) list"

text \<open>\<^verbatim>\<open>Map.prototype.set\<close>: an existing key keeps its place, a new key goes to the end.\<close>

fun mapSet :: "('k \<times> 'v) list \<Rightarrow> 'k \<Rightarrow> 'v \<Rightarrow> ('k \<times> 'v) list" where
  "mapSet [] k v = [(k, v)]"
| "mapSet ((k', v') # m) k v = (if k' = k then (k, v) # m else (k', v') # mapSet m k v)"

definition getUser :: "memStorage \<Rightarrow> int \<Rightarrow> jsobj option" where
  "getUser st uid = users st uid"

definition getOnboardingData :: "memStorage \<Rightarrow> int \<Rightarrow> jsobj option" where
  "getOnboardingData st userId =
     find (\<lambda>d. jsGet d ''userId'' = JNumber userId) (map snd (onboardingData st))"

text \<open>The record \<^verbatim>\<open>saveOnboardingStep\<close> creates when the user has none yet.\<close>

definition newOnboardingData :: "memStorage \<Rightarrow> nat \<Rightarrow> int \<Rightarrow> string \<Rightarrow> jsobj" where
  "newOnboardingData st now userId step =
     [''id'' \<mapsto> JNumber (int (length (onboardingData st)) + 1),
      ''userId'' \<mapsto> JNumber userId,
      ''step'' \<mapsto> JString step,
      ''primaryKpi'' \<mapsto> JNull,
      ''secondaryKpis'' \<mapsto> JArray [],
      ''uploadMethod'' \<mapsto> JNull,
      ''dataStatus'' \<mapsto> JNull,
      ''externalFactors'' \<mapsto> JNull,
      ''completed'' \<mapsto> JBool False,
      ''createdAt'' \<mapsto> JDate now,
      ''updatedAt'' \<mapsto> JDate now]"

text \<open>
  \<^verbatim>\<open>saveOnboardingStep(userId, step, data)\<close>. It reads the clock twice: \<open>now\<close> when it
  creates a record, \<open>later\<close> for \<^verbatim>\<open>updatedAt\<close>. \<open>Inl\<close> is the thrown error's message; the
  storage is then as it was.
\<close>

definition saveOnboardingStep ::
  "memStorage \<Rightarrow> nat \<Rightarrow> nat \<Rightarrow> int \<Rightarrow> string \<Rightarrow> jsobj \<Rightarrow> string + (memStorage \<times> jsobj)" where
  "saveOnboardingStep st now later userId step data =
     (case getUser st userId of
        None \<Rightarrow> Inl ''User not found''
      | Some user \<Rightarrow>
          let onboarding =
                (case getOnboardingData st userId of
                   Some d \<Rightarrow> d
                 | None \<Rightarrow> newOnboardingData st now userId step);
              updatedData = ((onboarding(''step'' \<mapsto> JString step)) ++ data)(''updatedAt'' \<mapsto> JDate later)
          in Inr (st\<lparr>onboardingData := mapSet (onboardingData st) (jsGet updatedData ''id'') updatedData\<rparr>,
                  updatedData))"

text \<open>
  The storage as the constructor of \<^verbatim>\<open>MemStorage\<close> leaves it: the default user with
  id 1, no onboarding record.
\<close>

definition initialStorage :: memStorage where
  "initialStorage =
     \<lparr>users = [1 \<mapsto> [''username'' \<mapsto> JString ''testuser'', ''password'' \<mapsto> JString ''password'',
                      ''id'' \<mapsto> JNumber 1]],
      onboardingData = []\<rparr>"

text \<open>
  What \<^verbatim>\<open>GET /api/onboarding/progress\<close> returns as data: the record of user 1, or
  the empty object.
\<close>

definition onboardingProgress :: "memStorage \<Rightarrow> jsobj" where
  "onboardingProgress st = (case getOnboardingData st 1 of Some d \<Rightarrow> d | None \<Rightarrow> Map.empty)"

section \<open>The handler of POST /api/analyze/data\<close>

definition requiredColumns :: "string list" where
  "requiredColumns = [''date'', ''channel'', ''campaign'', ''spend'']"

definition missingColumns :: "string list \<Rightarrow> string list" where
  "missingColumns cols =
     (let lowerCaseColumns = map toLowerCase cols in
      filter (\<lambda>col. col \<notin> set lowerCaseColumns \<and>
                     replaceFirst (CHR ''_'') (CHR '' '') col \<notin> set lowerCaseColumns)
        requiredColumns)"

definition missingColumnError :: "string \<Rightarrow> validationError" where
  "missingColumnError col =
     \<lparr>row = 0, column = col,
      message = ''Required column '' @ [CHR 0x22] @ col @ [CHR 0x22] @ '' is missing from the data file''\<rparr>"

definition dateCol :: "row \<Rightarrow> string option" where
  "dateCol r = find (\<lambda>key. toLowerCase key = ''date'') (objectKeys r)"

definition channelCol :: "row \<Rightarrow> string option" where
  "channelCol r = find (\<lambda>key. toLowerCase key = ''channel'') (objectKeys r)"

definition campaignCol :: "row \<Rightarrow> string option" where
  "campaignCol r = find (\<lambda>key. toLowerCase key = ''campaign'') (objectKeys r)"

definition spendCol :: "row \<Rightarrow> string option" where
  "spendCol r =
     find (\<lambda>key. toLowerCase key = ''spend'' \<or> includesStr (toLowerCase key) ''cost'')
       (objectKeys r)"

text \<open>
  The body of \<^verbatim>\<open>parsedData.forEach((row, index) => ...)\<close>: the errors one row pushes, in
  the order date, spend, channel. A resolved column name is never the empty string, so
  \<^verbatim>\<open>if (dateCol && ...)\<close> asks whether \<^verbatim>\<open>find\<close> found one.
\<close>

definition dateErrors :: "nat \<Rightarrow> row \<Rightarrow> validationError list" where
  "dateErrors index r =
     (case dateCol r of
        None \<Rightarrow> []
      | Some dc \<Rightarrow>
          if \<not> truthy (rowGet r dc)
          then [\<lparr>row = index + 2, column = dc, message = ''Missing date value''\<rparr>]
          else [])"

definition spendErrors :: "nat \<Rightarrow> row \<Rightarrow> validationError list" where
  "spendErrors index r =
     (case spendCol r of
        None \<Rightarrow> []
      | Some sc \<Rightarrow>
          let spend = rowGet r sc in
          if spend = CUndefined \<or> spend = CNull \<or> spend = CStr []
          then [\<lparr>row = index + 2, column = sc, message = ''Missing spend value''\<rparr>]
          else if spendIsNaN spend
          then [\<lparr>row = index + 2, column = sc,
                 message = ''Invalid spend format (must be numeric)''\<rparr>]
          else [])"

definition channelErrors :: "nat \<Rightarrow> row \<Rightarrow> validationError list" where
  "channelErrors index r =
     (case channelCol r of
        None \<Rightarrow> []
      | Some cc \<Rightarrow>
          (case rowGet r cc of
             CStr s \<Rightarrow>
               if hasSpecialCharacters s
               then [\<lparr>row = index + 2, column = cc,
                      message = ''Channel name contains special characters''\<rparr>]
               else []
           | _ \<Rightarrow> []))"

definition validateRow :: "nat \<Rightarrow> row \<Rightarrow> validationError list" where
  "validateRow index r = dateErrors index r @ spendErrors index r @ channelErrors index r"

text \<open>The \<^verbatim>\<open>forEach\<close> loop, from the given index on.\<close>

fun validateRows :: "nat \<Rightarrow> row list \<Rightarrow> validationError list" where
  "validateRows index [] = []"
| "validateRows index (r # rs) = validateRow index r @ validateRows (Suc index) rs"

text \<open>The value the summary maps a row to: the channel cell, or \<^verbatim>\<open>null\<close>.\<close>

definition channelValue :: "row \<Rightarrow> cell" where
  "channelValue r = (case channelCol r of Some cc \<Rightarrow> rowGet r cc | None \<Rightarrow> CNull)"

text \<open>
  \<^verbatim>\<open>new Set(parsedData.map(...).filter(Boolean)).size\<close>: a \<^verbatim>\<open>Set\<close> keeps the first of equal
  values, and its size is the number of values kept.
\<close>

definition channelCount :: "row list \<Rightarrow> nat" where
  "channelCount parsedData = length (remdups (filter truthy (map channelValue parsedData)))"

text \<open>The response object built once the rows are validated.\<close>

definition buildResponse ::
  "validationError list \<Rightarrow> row list \<Rightarrow> string list \<Rightarrow> dataValidationResponse" where
  "buildResponse errs parsedData cols =
     \<lparr>status = (if length errs > 0 then ''error'' else ''success''),
      errors = (if length errs > 0 then Some errs else None),
      summary = Some \<lparr>timePeriod = ''Sample period'',
                       dataPoints = length parsedData,
                       channels = channelCount parsedData\<rparr>,
      preview = Some (if length errs > 0
                      then take (min 5 (length parsedData)) parsedData
                      else take (min 5 (length parsedData)) parsedData),
      columns = Some cols\<rparr>"

text \<open>\<^verbatim>\<open>response.errors || []\<close>\<close>

definition errorsOrEmpty :: "dataValidationResponse \<Rightarrow> validationError list" where
  "errorsOrEmpty res = (case errors res of Some es \<Rightarrow> es | None \<Rightarrow> [])"

text \<open>
  The handler from the required-column check on. The user is the constant 1. With a
  required column missing it answers at once and does not reach the storage. Otherwise
  it saves \<^verbatim>\<open>dataStatus\<close> and \<^verbatim>\<open>dataErrors\<close> under the step \<^verbatim>\<open>analyze\<close>; an error thrown
  by the storage is caught and answered with status code 400.
\<close>

definition analyzeData ::
  "memStorage \<Rightarrow> nat \<Rightarrow> nat \<Rightarrow> row list \<Rightarrow> string list \<Rightarrow> response \<times> memStorage" where
  "analyzeData st now later parsedData cols =
     (let userId = 1;
          missing = missingColumns cols
      in if length missing > 0
         then (Json \<lparr>status = ''error'',
                      errors = Some (map missingColumnError missing),
                      summary = None, preview = None, columns = None\<rparr>,
               st)
         else
           let response = buildResponse (validateRows 0 parsedData) parsedData cols in
           case saveOnboardingStep st now later userId ''analyze''
                  [''dataStatus'' \<mapsto> JString (status response),
                   ''dataErrors'' \<mapsto> JErrors (errorsOrEmpty response)]
           of
             Inl msg \<Rightarrow> (Failure 400 msg, st)
           | Inr (st', saved) \<Rightarrow> (Json response, st'))"

section \<open>Notions as the specification words them\<close>

text \<open>
  The specification speaks of a spend value that is "purely numeric" after the \<^verbatim>\<open>$\<close> and
  the commas are removed. This definition follows those words: a plain decimal number,
  that is an optional sign, one or more digits and, optionally, a point with one or more
  digits. It is compared with the handler's own test, \<open>spendIsNaN\<close>, below.
\<close>

definition specUnsignedDecimal :: "string \<Rightarrow> bool" where
  "specUnsignedDecimal u =
     (takeWhile isDecimalDigit u \<noteq> [] \<and>
      (case dropWhile isDecimalDigit u of
         [] \<Rightarrow> True
       | c # fs \<Rightarrow> c = CHR ''.'' \<and> fs \<noteq> [] \<and> list_all isDecimalDigit fs))"

definition specNumericText :: "string \<Rightarrow> bool" where
  "specNumericText t =
     (case t of
        [] \<Rightarrow> False
      | c # cs \<Rightarrow>
          if c = CHR ''+'' \<or> c = CHR ''-'' then specUnsignedDecimal cs
          else specUnsignedDecimal t)"

text \<open>
  The specification describes \<^verbatim>\<open>summary.channels\<close> as the number of distinct non-empty
  resolved channel values. This definition follows those words, with "empty" as the
  handler itself tests it for the spend value (\<^verbatim>\<open>undefined\<close>, \<^verbatim>\<open>null\<close> or the empty
  string); it is compared with \<open>channelCount\<close> below.
\<close>

definition specChannelCount :: "row list \<Rightarrow> nat" where
  "specChannelCount rows =
     length (remdups (filter (\<lambda>v. v \<noteq> CUndefined \<and> v \<noteq> CNull \<and> v \<noteq> CStr [])
                        (map channelValue rows)))"

section \<open>Example inputs\<close>

text \<open>
  A header with the four required columns, and the same header without the spend column.
\<close>

definition exampleColumns :: "string list" where
  "exampleColumns = [''Date'', ''Channel'', ''Campaign'', ''Spend'']"

definition exampleColumnsNoSpend :: "string list" where
  "exampleColumnsNoSpend = [''Date'', ''Channel'', ''Campaign'']"

text \<open>
  Rows of a delimited text file: one whose channel and spend are both malformed, a
  well-formed one, and one with an empty spend.
\<close>

definition exampleRow :: row where
  "exampleRow = [(''Date'', CStr ''2024-01-01''), (''Channel'', CStr ''Search!!''),
                 (''Campaign'', CStr ''Brand''), (''Spend'', CStr ''abc'')]"

definition goodRow :: row where
  "goodRow = [(''Date'', CStr ''2024-01-01''), (''Channel'', CStr ''Paid Search''),
              (''Campaign'', CStr ''Brand''), (''Spend'', CStr ''$1,200.50'')]"

definition emptySpendRow :: row where
  "emptySpendRow = [(''Date'', CStr ''2024-01-02''), (''Channel'', CStr ''Email''),
                    (''Campaign'', CStr ''Promo''), (''Spend'', CStr [])]"

definition threeRows :: "row list" where
  "threeRows = [goodRow, exampleRow, emptySpendRow]"

definition repeatedChannelRows :: "row list" where
  "repeatedChannelRows = [goodRow, exampleRow, goodRow]"

definition sixRows :: "row list" where
  "sixRows = replicate 6 exampleRow"

text \<open>A row whose spend is a dollar sign and nothing else.\<close>

definition dollarOnlyRow :: row where
  "dollarOnlyRow = [(''Date'', CStr ''2024-01-03''), (''Channel'', CStr ''Display''),
                    (''Campaign'', CStr ''Brand''), (''Spend'', CStr ''$'')]"

text \<open>A row of a spreadsheet whose channel cell holds the number 0.\<close>

definition zeroChannelRow :: row where
  "zeroChannelRow = [(''Date'', CNum (JFin 45292)), (''Channel'', CNum (JFin 0)),
                     (''Campaign'', CStr ''Brand''), (''Spend'', CNum (JFin 100))]"

text \<open>The storage after a header-only file was analysed in the initial storage.\<close>

definition storageAfterSuccess :: memStorage where
  "storageAfterSuccess = snd (analyzeData initialStorage 0 1 [] exampleColumns)"

section \<open>Facts about the handler\<close>

lemma replaceFirst_required:
  "c \<in> set requiredColumns \<Longrightarrow> replaceFirst (CHR ''_'') (CHR '' '') c = c"
  by (auto simp: requiredColumns_def)

lemma set_missingColumns:
  "set (missingColumns cols) = {c \<in> set requiredColumns. c \<notin> set (map toLowerCase cols)}"
  by (auto simp: missingColumns_def Let_def replaceFirst_required)

lemma distinct_missingColumns: "distinct (missingColumns cols)"
  by (simp add: missingColumns_def Let_def requiredColumns_def)

lemma missingColumns_Nil_iff:
  "missingColumns cols = [] \<longleftrightarrow> set requiredColumns \<subseteq> set (map toLowerCase cols)"
proof -
  have "missingColumns cols = [] \<longleftrightarrow> set (missingColumns cols) = {}" by simp
  also have "\<dots> \<longleftrightarrow> set requiredColumns \<subseteq> set (map toLowerCase cols)"
    unfolding set_missingColumns by blast
  finally show ?thesis .
qed

text \<open>The three ways through the handler.\<close>

lemma analyzeData_missing:
  assumes "missingColumns cols \<noteq> []"
  shows "analyzeData st now later rows cols =
           (Json \<lparr>status = ''error'',
                   errors = Some (map missingColumnError (missingColumns cols)),
                   summary = None, preview = None, columns = None\<rparr>, st)"
  using assms by (simp add: analyzeData_def Let_def)

lemma saveOnboardingStep_no_user:
  "users st uid = None \<Longrightarrow>
   saveOnboardingStep st now later uid step data = Inl ''User not found''"
  by (simp add: saveOnboardingStep_def getUser_def)

lemma saveOnboardingStep_user:
  assumes "users st uid = Some u"
  shows "\<exists>st' saved. saveOnboardingStep st now later uid step data = Inr (st', saved) \<and>
                      users st' = users st"
  using assms by (simp add: saveOnboardingStep_def getUser_def Let_def)

lemma analyzeData_no_user:
  assumes "missingColumns cols = []" and "users st 1 = None"
  shows "analyzeData st now later rows cols = (Failure 400 ''User not found'', st)"
  using assms by (simp add: analyzeData_def Let_def saveOnboardingStep_no_user)

lemma analyzeData_user:
  assumes "missingColumns cols = []" and "users st 1 = Some u"
  shows "fst (analyzeData st now later rows cols) =
           Json (buildResponse (validateRows 0 rows) rows cols)"
    and "users (snd (analyzeData st now later rows cols)) = users st"
proof -
  obtain st' saved where s: "saveOnboardingStep st now later 1 ''analyze''
      [''dataStatus'' \<mapsto> JString (status (buildResponse (validateRows 0 rows) rows cols)),
       ''dataErrors'' \<mapsto> JErrors (errorsOrEmpty (buildResponse (validateRows 0 rows) rows cols))]
      = Inr (st', saved)" and u: "users st' = users st"
    using saveOnboardingStep_user[OF assms(2)] by blast
  show "fst (analyzeData st now later rows cols) =
          Json (buildResponse (validateRows 0 rows) rows cols)"
    using assms(1) s by (simp add: analyzeData_def Let_def)
  show "users (snd (analyzeData st now later rows cols)) = users st"
    using assms(1) s u by (simp add: analyzeData_def Let_def)
qed

lemma users_analyzeData: "users (snd (analyzeData st now later rows cols)) = users st"
proof (cases "missingColumns cols = []")
  case False
  then show ?thesis by (simp add: analyzeData_missing)
next
  case True
  show ?thesis
  proof (cases "users st 1")
    case None
    then show ?thesis using True by (simp add: analyzeData_no_user)
  next
    case (Some u)
    then show ?thesis using True analyzeData_user(2) by blast
  qed
qed

text \<open>An error of the loop comes from one row, and carries that row's index plus 2.\<close>

lemma mem_validateRows:
  "e \<in> set (validateRows n rs) \<longleftrightarrow> (\<exists>i<length rs. e \<in> set (validateRow (n + i) (rs ! i)))"
proof (induction rs arbitrary: n)
  case Nil
  then show ?case by simp
next
  case (Cons r rs)
  show ?case
    by (auto simp: Cons.IH less_Suc_eq_0_disj)
qed

lemma validateRow_row: "e \<in> set (validateRow i r) \<Longrightarrow> row e = i + 2"
  by (auto simp: validateRow_def dateErrors_def spendErrors_def channelErrors_def Let_def
           split: option.splits if_splits cell.splits)

lemma errorsOrEmpty_buildResponse: "errorsOrEmpty (buildResponse errs rows cols) = errs"
  by (simp add: errorsOrEmpty_def buildResponse_def)

lemma dateErrors_message: "e \<in> set (dateErrors i r) \<Longrightarrow> message e = ''Missing date value''"
  by (auto simp: dateErrors_def split: option.splits if_splits)

lemma channelErrors_message:
  "e \<in> set (channelErrors i r) \<Longrightarrow> message e = ''Channel name contains special characters''"
  by (auto simp: channelErrors_def split: option.splits if_splits cell.splits)

lemma spendErrors_message:
  "e \<in> set (spendErrors i r) \<Longrightarrow>
   message e = ''Missing spend value'' \<or> message e = ''Invalid spend format (must be numeric)''"
  by (auto simp: spendErrors_def Let_def split: option.splits if_splits)

text \<open>The errors of the loop that carry the row number of a row are the errors of that row.\<close>

lemma validateRows_at_row:
  assumes "i < length rows"
  shows "{e \<in> set (validateRows 0 rows). row e = i + 2} = set (validateRow i (rows ! i))"
proof -
  have "e \<in> set (validateRow i (rows ! i))" if "e \<in> set (validateRows 0 rows)" "row e = i + 2" for e
  proof -
    from that(1) have "\<exists>j<length rows. e \<in> set (validateRow (0 + j) (rows ! j))"
      by (simp only: mem_validateRows)
    then obtain j where j: "j < length rows" "e \<in> set (validateRow j (rows ! j))"
      by auto
    then have "row e = j + 2" by (simp add: validateRow_row)
    with that(2) have "j = i" by simp
    with j show ?thesis by simp
  qed
  moreover have "e \<in> set (validateRows 0 rows) \<and> row e = i + 2" if "e \<in> set (validateRow i (rows ! i))" for e
    using that assms by (auto simp: mem_validateRows validateRow_row)
  ultimately show ?thesis by blast
qed

lemma spend_errors_of_row:
  "{e \<in> set (validateRow i r). message e = ''Missing spend value'' \<or>
                               message e = ''Invalid spend format (must be numeric)''} =
   set (spendErrors i r)"
  by (auto simp: validateRow_def dest: dateErrors_message channelErrors_message spendErrors_message)

lemma channel_errors_of_row:
  "{e \<in> set (validateRow i r). message e = ''Channel name contains special characters''} =
   set (channelErrors i r)"
  by (auto simp: validateRow_def dest: dateErrors_message channelErrors_message spendErrors_message)

text \<open>
  The channel count is the number of distinct truthy channel values, whatever the order
  of the rows.
\<close>

lemma channelCount_card:
  "channelCount rows = card {v. truthy v \<and> (\<exists>r\<in>set rows. channelValue r = v)}"
proof -
  have "set (filter truthy (map channelValue rows)) = {v. truthy v \<and> (\<exists>r\<in>set rows. channelValue r = v)}"
    by auto
  then show ?thesis
    by (simp add: channelCount_def length_remdups_card_conv)
qed

lemma specChannelCount_card:
  "specChannelCount rows =
     card {v. (\<exists>r\<in>set rows. channelValue r = v) \<and> v \<noteq> CUndefined \<and> v \<noteq> CNull \<and> v \<noteq> CStr []}"
proof -
  have "set (filter (\<lambda>v. v \<noteq> CUndefined \<and> v \<noteq> CNull \<and> v \<noteq> CStr []) (map channelValue rows)) =
        {v. (\<exists>r\<in>set rows. channelValue r = v) \<and> v \<noteq> CUndefined \<and> v \<noteq> CNull \<and> v \<noteq> CStr []}"
    by auto
  then show ?thesis
    by (simp add: specChannelCount_def length_remdups_card_conv)
qed

lemma channelCount_mset: "mset rows' = mset rows \<Longrightarrow> channelCount rows' = channelCount rows"
proof -
  assume "mset rows' = mset rows"
  then have "set rows' = set rows" by (rule mset_eq_setD)
  then show ?thesis by (simp add: channelCount_card)
qed

lemma truthy_nonempty: "truthy v \<Longrightarrow> v \<noteq> CUndefined \<and> v \<noteq> CNull \<and> v \<noteq> CStr []"
  by (cases v) auto

text \<open>
  What \<^verbatim>\<open>saveOnboardingStep\<close> leaves in the storage, when every record is stored under
  its own id (as every write of \<^verbatim>\<open>MemStorage\<close> does) and the data override neither
  \<^verbatim>\<open>id\<close> nor \<^verbatim>\<open>userId\<close>.
\<close>

lemma find_mapSet_Some:
  "find P (map snd m) = Some d \<Longrightarrow> \<forall>(k', d')\<in>set m. f d' = k' \<Longrightarrow> P v \<Longrightarrow>
   find P (map snd (mapSet m (f d) v)) = Some v"
  by (induction m) (auto split: if_splits)

lemma find_mapSet_None:
  "find P (map snd m) = None \<Longrightarrow> P v \<Longrightarrow> find P (map snd (mapSet m k v)) = Some v"
  by (induction m) (auto split: if_splits)

lemma set_mapSet: "set (mapSet m k v) \<subseteq> insert (k, v) (set m)"
  by (induction m) (auto split: if_splits)

lemma getOnboardingData_userId:
  "getOnboardingData st uid = Some d \<Longrightarrow> jsGet d ''userId'' = JNumber uid"
  by (auto simp: getOnboardingData_def find_Some_iff)

lemma saveOnboardingStep_stored:
  assumes u: "users st uid = Some u"
    and inv: "\<forall>(k, d)\<in>set (onboardingData st). jsGet d ''id'' = k"
    and d1: "data ''id'' = None" and d2: "data ''userId'' = None"
  shows "\<exists>st'. saveOnboardingStep st now later uid step data =
            Inr (st', ((case getOnboardingData st uid of Some d \<Rightarrow> d
                        | None \<Rightarrow> newOnboardingData st now uid step)(''step'' \<mapsto> JString step) ++ data)
                        (''updatedAt'' \<mapsto> JDate later)) \<and>
          getOnboardingData st' uid =
            Some (((case getOnboardingData st uid of Some d \<Rightarrow> d
                        | None \<Rightarrow> newOnboardingData st now uid step)(''step'' \<mapsto> JString step) ++ data)
                        (''updatedAt'' \<mapsto> JDate later)) \<and>
          users st' = users st \<and>
          set (onboardingData st') \<subseteq>
            insert (jsGet (case getOnboardingData st uid of Some d \<Rightarrow> d
                        | None \<Rightarrow> newOnboardingData st now uid step) ''id'',
                    ((case getOnboardingData st uid of Some d \<Rightarrow> d
                        | None \<Rightarrow> newOnboardingData st now uid step)(''step'' \<mapsto> JString step) ++ data)
                        (''updatedAt'' \<mapsto> JDate later)) (set (onboardingData st))"
proof -
  define base where "base = (case getOnboardingData st uid of Some d \<Rightarrow> d
                        | None \<Rightarrow> newOnboardingData st now uid step)"
  define upd where "upd = (base(''step'' \<mapsto> JString step) ++ data)(''updatedAt'' \<mapsto> JDate later)"
  have id: "jsGet upd ''id'' = jsGet base ''id''"
    using d1 by (simp add: upd_def jsGet_def map_add_def)
  have uid_base: "jsGet base ''userId'' = JNumber uid"
    by (auto simp: base_def newOnboardingData_def jsGet_def dest: getOnboardingData_userId[unfolded jsGet_def] split: option.splits)
  have uid_upd: "jsGet upd ''userId'' = JNumber uid"
    using d2 uid_base by (simp add: upd_def jsGet_def map_add_def)
  have save: "saveOnboardingStep st now later uid step data =
          Inr (st\<lparr>onboardingData := mapSet (onboardingData st) (jsGet base ''id'') upd\<rparr>, upd)"
    using u id by (simp add: saveOnboardingStep_def getUser_def Let_def base_def[symmetric] upd_def[symmetric])
  have found: "find (\<lambda>d. jsGet d ''userId'' = JNumber uid)
                  (map snd (mapSet (onboardingData st) (jsGet base ''id'') upd)) = Some upd"
  proof (cases "getOnboardingData st uid")
    case None
    then show ?thesis
      using uid_upd by (simp add: getOnboardingData_def find_mapSet_None)
  next
    case (Some d)
    then have b: "base = d" by (simp add: base_def)
    show ?thesis
      unfolding b
      by (rule find_mapSet_Some[where f = "\<lambda>d. jsGet d ''id''"])
         (use Some inv uid_upd in \<open>simp_all add: getOnboardingData_def\<close>)
  qed
  show ?thesis
    unfolding base_def[symmetric] upd_def[symmetric]
    using save found set_mapSet[of "onboardingData st" "jsGet base ''id''" upd]
    by (simp add: getOnboardingData_def)
qed

text \<open>
  Trimming stops only where no white space is left: the rounds \<open>trimStart\<close> allows are
  enough.
\<close>

lemma leadingWhiteSpace_Nil: "leadingWhiteSpace [] = 0"
  by (simp add: leadingWhiteSpace_def strWhiteSpaceChar_def)

lemma trimStartFuel_done: "length s \<le> n \<Longrightarrow> leadingWhiteSpace (trimStartFuel n s) = 0"
proof (induction n arbitrary: s)
  case 0
  then show ?case by (simp add: leadingWhiteSpace_Nil)
next
  case (Suc n)
  show ?case
  proof (cases "leadingWhiteSpace s = 0")
    case True
    then show ?thesis by simp
  next
    case False
    then have "length (drop (leadingWhiteSpace s) s) \<le> n"
      using Suc.prems by simp
    then show ?thesis using False by (simp add: Suc.IH)
  qed
qed

lemma trimStart_done: "leadingWhiteSpace (trimStart s) = 0"
  by (simp add: trimStart_def trimStartFuel_done)

text \<open>
  A plain decimal number is a numeric literal of ECMAScript, and so is a text that is
  empty or white space only.
\<close>

lemma dropWhile_all: "list_all P xs \<Longrightarrow> dropWhile P xs = []"
  by (induction xs) auto

lemma takeWhile_all: "list_all P xs \<Longrightarrow> takeWhile P xs = xs"
  by (induction xs) auto

lemma isDecimalDigit_literal: "isDecimalDigit c \<Longrightarrow> isLiteralChar c"
  by (auto simp: isDecimalDigit_def isLiteralChar_def)

lemma specUnsignedDecimal_accepted:
  assumes "specUnsignedDecimal u"
  shows "strUnsignedDecimalLiteral u" and "list_all isLiteralChar u" and "u \<noteq> []"
proof -
  let ?ip = "takeWhile isDecimalDigit u" and ?r = "dropWhile isDecimalDigit u"
  have ip: "?ip \<noteq> []" using assms by (simp add: specUnsignedDecimal_def)
  then show "u \<noteq> []" by auto
  have lip: "\<forall>x\<in>set ?ip. isLiteralChar x"
    by (auto dest: set_takeWhileD isDecimalDigit_literal)
  show "strUnsignedDecimalLiteral u"
  proof (cases ?r)
    case Nil
    show ?thesis
      unfolding strUnsignedDecimalLiteral_def Let_def Nil using ip by simp
  next
    case (Cons c fs)
    have "c = CHR ''.'' \<and> fs \<noteq> [] \<and> list_all isDecimalDigit fs"
      using assms unfolding specUnsignedDecimal_def Cons by simp
    then have dot: "c = CHR ''.''" and d: "dropWhile isDecimalDigit fs = []"
      by (simp_all add: dropWhile_all)
    show ?thesis
      unfolding strUnsignedDecimalLiteral_def Let_def Cons list.case dot d
      using ip by (simp add: exponentPartOpt_def)
  qed
  have lr: "\<forall>x\<in>set ?r. isLiteralChar x"
  proof (cases ?r)
    case Nil
    show ?thesis unfolding Nil by simp
  next
    case (Cons c fs)
    have c: "c = CHR ''.'' \<and> fs \<noteq> [] \<and> list_all isDecimalDigit fs"
      using assms unfolding specUnsignedDecimal_def Cons by simp
    have "isLiteralChar c" using c by (simp add: isLiteralChar_def)
    moreover have "\<forall>x\<in>set fs. isLiteralChar x"
      using c by (auto simp: list_all_iff dest: isDecimalDigit_literal)
    ultimately show ?thesis unfolding Cons by simp
  qed
  have "set u = set ?ip \<union> set ?r"
    by (metis set_append takeWhile_dropWhile_id)
  then show "list_all isLiteralChar u"
    using lip lr unfolding list_all_iff by blast
qed

lemma specNumericText_literal:
  assumes "specNumericText t"
  shows "strNumericLiteral t" and "list_all isLiteralChar t" and "t \<noteq> []"
proof -
  obtain c cs where t: "t = c # cs" using assms by (cases t) (simp_all add: specNumericText_def)
  show "t \<noteq> []" using t by simp
  show "strNumericLiteral t"
  proof (cases "c = CHR ''+'' \<or> c = CHR ''-''")
    case True
    then have "specUnsignedDecimal cs" using assms t by (simp add: specNumericText_def)
    then show ?thesis
      using True t specUnsignedDecimal_accepted(1)
      by (auto simp: strNumericLiteral_def strDecimalLiteral_def)
  next
    case False
    then have "specUnsignedDecimal t" using assms t by (simp add: specNumericText_def)
    then show ?thesis
      using False t specUnsignedDecimal_accepted(1)
      by (auto simp: strNumericLiteral_def strDecimalLiteral_def)
  qed
  show "list_all isLiteralChar t"
  proof (cases "c = CHR ''+'' \<or> c = CHR ''-''")
    case True
    then have "specUnsignedDecimal cs" using assms t by (simp add: specNumericText_def)
    then have "list_all isLiteralChar cs" by (rule specUnsignedDecimal_accepted(2))
    moreover have "isLiteralChar c" using True by (auto simp: isLiteralChar_def)
    ultimately show ?thesis using t by simp
  next
    case False
    then have "specUnsignedDecimal t" using assms t by (simp add: specNumericText_def)
    then show ?thesis by (rule specUnsignedDecimal_accepted(2))
  qed
qed

lemma isPrefixOf_hd: "isPrefixOf w (c # cs) \<Longrightarrow> w \<noteq> [] \<Longrightarrow> hd w = c"
  by (cases w) auto

lemma strWhiteSpaceChar_nonempty: "\<forall>w\<in>set strWhiteSpaceChar. w \<noteq> []"
  by (simp add: strWhiteSpaceChar_def)

lemma literal_chars_start_no_white_space:
  "list_all (\<lambda>c. c \<notin> set (map hd strWhiteSpaceChar))
     ''0123456789abcdefghijklmnopqrstuvwxyzABCDEFGHIJKLMNOPQRSTUVWXYZ+-.''"
  by code_simp

lemma leadingWhiteSpace_literal:
  assumes "isLiteralChar c"
  shows "leadingWhiteSpace (c # cs) = 0"
proof (cases "find (\<lambda>w. isPrefixOf w (c # cs)) strWhiteSpaceChar")
  case None
  then show ?thesis by (simp add: leadingWhiteSpace_def)
next
  case (Some w)
  then have w: "w \<in> set strWhiteSpaceChar" "isPrefixOf w (c # cs)"
    by (auto simp: find_Some_iff)
  then have "hd w = c"
    using strWhiteSpaceChar_nonempty by (auto intro: isPrefixOf_hd)
  then have "c \<in> set (map hd strWhiteSpaceChar)" using w(1) by force
  moreover have "c \<notin> set (map hd strWhiteSpaceChar)"
    using assms literal_chars_start_no_white_space
    unfolding isLiteralChar_def list_all_iff by blast
  ultimately show ?thesis by simp
qed

lemma trimStart_literal: "isLiteralChar c \<Longrightarrow> trimStart (c # cs) = c # cs"
  by (simp add: trimStart_def leadingWhiteSpace_literal)

lemma trimStart_Nil: "trimStart [] = []"
  by (simp add: trimStart_def)

lemma specNumericText_accepted:
  assumes "specNumericText t"
  shows "stringNumericLiteral t"
proof -
  obtain c cs where t: "t = c # cs" using specNumericText_literal(3)[OF assms] by (cases t) auto
  have l: "list_all isLiteralChar t" by (rule specNumericText_literal(2)[OF assms])
  then have "isLiteralChar c" using t by simp
  then have tr: "trimStart t = t" unfolding t by (rule trimStart_literal)
  show ?thesis
    using specNumericText_literal(1)[OF assms] l
    by (simp add: stringNumericLiteral_def Let_def tr takeWhile_all dropWhile_all trimStart_Nil)
qed

lemma blank_accepted: "trimStart t = [] \<Longrightarrow> stringNumericLiteral t"
  by (simp add: stringNumericLiteral_def Let_def trimStart_Nil)

text \<open>The example inputs, evaluated.\<close>

lemma missingColumns_exampleColumns: "missingColumns exampleColumns = []"
  by code_simp

lemma missingColumns_exampleColumnsNoSpend: "missingColumns exampleColumnsNoSpend = [''spend'']"
  by code_simp

lemma users_initialStorage:
  "users initialStorage 1 =
     Some [''username'' \<mapsto> JString ''testuser'', ''password'' \<mapsto> JString ''password'',
           ''id'' \<mapsto> JNumber 1]"
  by (simp add: initialStorage_def)

lemma analyzeData_example:
  "fst (analyzeData initialStorage 0 1 [exampleRow] exampleColumns) =
     Json \<lparr>status = ''error'',
            errors = Some [\<lparr>row = 2, column = ''Spend'',
                             message = ''Invalid spend format (must be numeric)''\<rparr>,
                           \<lparr>row = 2, column = ''Channel'',
                             message = ''Channel name contains special characters''\<rparr>],
            summary = Some \<lparr>timePeriod = ''Sample period'', dataPoints = 1, channels = 1\<rparr>,
            preview = Some [exampleRow],
            columns = Some exampleColumns\<rparr>"
  by code_simp

lemma analyzeData_sixRows:
  "fst (analyzeData initialStorage 0 1 sixRows exampleColumns) =
     Json \<lparr>status = ''error'',
            errors = Some (validateRows 0 sixRows),
            summary = Some \<lparr>timePeriod = ''Sample period'', dataPoints = 6, channels = 1\<rparr>,
            preview = Some [exampleRow, exampleRow, exampleRow, exampleRow, exampleRow],
            columns = Some exampleColumns\<rparr>"
  by code_simp

lemma analyzeData_threeRows:
  "fst (analyzeData initialStorage 0 1 threeRows exampleColumns) =
     Json \<lparr>status = ''error'',
            errors = Some [\<lparr>row = 3, column = ''Spend'',
                             message = ''Invalid spend format (must be numeric)''\<rparr>,
                           \<lparr>row = 3, column = ''Channel'',
                             message = ''Channel name contains special characters''\<rparr>,
                           \<lparr>row = 4, column = ''Spend'', message = ''Missing spend value''\<rparr>],
            summary = Some \<lparr>timePeriod = ''Sample period'', dataPoints = 3, channels = 3\<rparr>,
            preview = Some threeRows,
            columns = Some exampleColumns\<rparr>"
  by code_simp

lemma threeRows_cells:
  "length threeRows = 3"
  "spendCol (threeRows ! 0) = Some ''Spend''"
  "spendCol (threeRows ! 1) = Some ''Spend''"
  "spendCol (threeRows ! 2) = Some ''Spend''"
  "rowGet (threeRows ! 0) ''Spend'' = CStr ''$1,200.50''"
  "rowGet (threeRows ! 1) ''Spend'' = CStr ''abc''"
  "rowGet (threeRows ! 2) ''Spend'' = CStr []"
  "channelCol (threeRows ! 0) = Some ''Channel''"
  "channelCol (threeRows ! 1) = Some ''Channel''"
  "rowGet (threeRows ! 0) ''Channel'' = CStr ''Paid Search''"
  "rowGet (threeRows ! 1) ''Channel'' = CStr ''Search!!''"
  by code_simp+

lemma spend_examples:
  "\<not> spendIsNaN (CStr ''$1,200.50'')" "spendIsNaN (CStr ''abc'')"
  by code_simp+

lemma spend_examples_more:
  "\<not> spendIsNaN (CStr ''$'')" "\<not> spendIsNaN (CStr '' 12 '')" "\<not> spendIsNaN (CStr ''1e3'')"
  "\<not> spendIsNaN (CStr ''0x1F'')" "spendIsNaN (CStr ''12abc'')" "spendIsNaN (CStr ''1.2.3'')"
  "spendIsNaN (CStr ''12 USD'')" "spendIsNaN (CBool True)" "\<not> spendIsNaN (CNum (JFin 0))"
  by code_simp+

lemma specNumericText_examples:
  "specNumericText ''1200.50''" "specNumericText ''-3''"
  "\<not> specNumericText []" "\<not> specNumericText '' ''" "\<not> specNumericText ''Infinity''"
  "\<not> specNumericText ''0x1F''" "\<not> specNumericText ''abc''"
  by code_simp+

lemma dollarOnlyRow_cells:
  "spendCol ([dollarOnlyRow] ! 0) = Some ''Spend''"
  "rowGet ([dollarOnlyRow] ! 0) ''Spend'' = CStr ''$''"
  "trimStart (filter (\<lambda>c. c \<noteq> CHR ''$'' \<and> c \<noteq> CHR '','') ''$'') = []"
  "specNumericText (filter (\<lambda>c. c \<noteq> CHR ''$'' \<and> c \<noteq> CHR '','') ''$1,200.50'')"
  by code_simp+

lemma analyzeData_repeatedChannelRows:
  "fst (analyzeData initialStorage 0 1 repeatedChannelRows exampleColumns) =
     Json \<lparr>status = ''error'',
            errors = Some [\<lparr>row = 3, column = ''Spend'',
                             message = ''Invalid spend format (must be numeric)''\<rparr>,
                           \<lparr>row = 3, column = ''Channel'',
                             message = ''Channel name contains special characters''\<rparr>],
            summary = Some \<lparr>timePeriod = ''Sample period'', dataPoints = 3, channels = 2\<rparr>,
            preview = Some repeatedChannelRows,
            columns = Some exampleColumns\<rparr>"
  by code_simp

lemma storageAfterSuccess_inv:
  "\<forall>(k, d)\<in>set (onboardingData storageAfterSuccess). jsGet d ''id'' = k"
  by (simp add: storageAfterSuccess_def analyzeData_def missingColumns_exampleColumns Let_def
      saveOnboardingStep_def getUser_def users_initialStorage getOnboardingData_def
      initialStorage_def newOnboardingData_def jsGet_def map_add_def buildResponse_def)

lemma users_storageAfterSuccess:
  "users storageAfterSuccess 1 =
     Some [''username'' \<mapsto> JString ''testuser'', ''password'' \<mapsto> JString ''password'',
           ''id'' \<mapsto> JNumber 1]"
  by (simp add: storageAfterSuccess_def users_analyzeData users_initialStorage)

lemma analyzeData_again_example:
  "fst (analyzeData storageAfterSuccess 2 3 [exampleRow] exampleColumns) =
     Json \<lparr>status = ''error'',
            errors = Some [\<lparr>row = 2, column = ''Spend'',
                             message = ''Invalid spend format (must be numeric)''\<rparr>,
                           \<lparr>row = 2, column = ''Channel'',
                             message = ''Channel name contains special characters''\<rparr>],
            summary = Some \<lparr>timePeriod = ''Sample period'', dataPoints = 1, channels = 1\<rparr>,
            preview = Some [exampleRow],
            columns = Some exampleColumns\<rparr>"
  by code_simp

section \<open>The required-column check\<close>

text \<open>
  C1. When the parsed columns lack a required column (no column lower-cases to the name,
  nor to the name with its first underscore turned into a space), the handler answers
  with status "error" and exactly one error per missing column, in the order date,
  channel, campaign, spend: row 0, the column's name, and the message
  \<^verbatim>\<open>Required column "<name>" is missing from the data file\<close>. The answer has no summary,
  preview or columns, does not depend on the rows (no row is checked), and the storage
  is left as it was.
\<close>

theorem missing_required_columns_short_circuit:
  assumes "\<exists>c\<in>set requiredColumns.
             c \<notin> set (map toLowerCase cols) \<and>
             replaceFirst (CHR ''_'') (CHR '' '') c \<notin> set (map toLowerCase cols)"
  shows "\<exists>es. analyzeData st now later rows cols =
                 (Json \<lparr>status = ''error'', errors = Some es,
                         summary = None, preview = None, columns = None\<rparr>, st) \<and>
              es = map (\<lambda>col. \<lparr>row = 0, column = col,
                                message = ''Required column '' @ [CHR 0x22] @ col @ [CHR 0x22] @
                                          '' is missing from the data file''\<rparr>)
                       (missingColumns cols) \<and>
              length es = length (missingColumns cols) \<and>
              distinct (missingColumns cols) \<and>
              set (missingColumns cols) =
                {c \<in> set requiredColumns.
                   c \<notin> set (map toLowerCase cols) \<and>
                   replaceFirst (CHR ''_'') (CHR '' '') c \<notin> set (map toLowerCase cols)} \<and>
              (\<forall>e\<in>set es. row e = 0 \<and> column e \<in> set (missingColumns cols))"
proof -
  have m: "set (missingColumns cols) =
             {c \<in> set requiredColumns.
                c \<notin> set (map toLowerCase cols) \<and>
                replaceFirst (CHR ''_'') (CHR '' '') c \<notin> set (map toLowerCase cols)}"
    by (auto simp: missingColumns_def Let_def)
  obtain c where "c \<in> set requiredColumns" "c \<notin> set (map toLowerCase cols)"
      "replaceFirst (CHR ''_'') (CHR '' '') c \<notin> set (map toLowerCase cols)"
    using assms by blast
  then have "c \<in> set (missingColumns cols)" unfolding m by simp
  then have ne: "missingColumns cols \<noteq> []" by auto
  have e: "map missingColumnError (missingColumns cols) =
           map (\<lambda>col. \<lparr>row = 0, column = col,
                        message = ''Required column '' @ [CHR 0x22] @ col @ [CHR 0x22] @
                                  '' is missing from the data file''\<rparr>)
               (missingColumns cols)"
    by (simp add: missingColumnError_def)
  show ?thesis
    using analyzeData_missing[OF ne, of st now later rows] m distinct_missingColumns[of cols]
    unfolding e by auto
qed

theorem missing_required_columns_short_circuit_witness:
  "(\<exists>c\<in>set requiredColumns.
       c \<notin> set (map toLowerCase exampleColumnsNoSpend) \<and>
       replaceFirst (CHR ''_'') (CHR '' '') c \<notin> set (map toLowerCase exampleColumnsNoSpend)) \<and>
   analyzeData initialStorage 0 1 [exampleRow] exampleColumnsNoSpend =
     (Json \<lparr>status = ''error'',
             errors = Some [\<lparr>row = 0, column = ''spend'',
                              message = ''Required column '' @ [CHR 0x22] @ ''spend'' @ [CHR 0x22] @
                                        '' is missing from the data file''\<rparr>],
             summary = None, preview = None, columns = None\<rparr>, initialStorage)"
proof -
  have h: "\<exists>c\<in>set requiredColumns.
       c \<notin> set (map toLowerCase exampleColumnsNoSpend) \<and>
       replaceFirst (CHR ''_'') (CHR '' '') c \<notin> set (map toLowerCase exampleColumnsNoSpend)"
    by code_simp
  show ?thesis
    using missing_required_columns_short_circuit[OF h, of initialStorage 0 1 "[exampleRow]"] h
    unfolding missingColumns_exampleColumnsNoSpend by simp
qed

section \<open>The preview\<close>

text \<open>
  C3, as stated, fails: without the spend column the handler answers from the
  required-column check, and that answer has no preview, although one row was parsed.
\<close>

theorem no_preview_without_required_columns:
  "(case fst (analyzeData initialStorage 0 1 [exampleRow] exampleColumnsNoSpend) of
      Json res \<Rightarrow> preview res
    | Failure code msg \<Rightarrow> None) \<noteq> Some (take (min 5 (length [exampleRow])) [exampleRow])"
  by code_simp

text \<open>
  C3, amended. When no required column is missing, the preview of the analysis result is
  the first min(5, number of rows) parsed rows, and the columns are the parsed column
  list, whether the status is "success" or "error". When a required column is missing,
  the result has neither preview nor columns.
\<close>

theorem preview_is_first_rows:
  assumes "fst (analyzeData st now later rows cols) = Json res"
  shows "(missingColumns cols = [] \<longrightarrow>
            preview res = Some (take (min 5 (length rows)) rows) \<and>
            length (take (min 5 (length rows)) rows) = min 5 (length rows) \<and>
            columns res = Some cols) \<and>
         (missingColumns cols \<noteq> [] \<longrightarrow> preview res = None \<and> columns res = None)"
proof (cases "missingColumns cols = []")
  case False
  then show ?thesis using assms by (auto simp: analyzeData_missing)
next
  case True
  show ?thesis
  proof (cases "users st 1")
    case None
    then show ?thesis using True assms by (simp add: analyzeData_no_user)
  next
    case (Some u)
    then have "res = buildResponse (validateRows 0 rows) rows cols"
      using True assms analyzeData_user(1)[OF True Some, of now later rows] by simp
    then show ?thesis using True by (simp add: buildResponse_def)
  qed
qed

theorem preview_is_first_rows_witness:
  "fst (analyzeData initialStorage 0 1 sixRows exampleColumns) =
     Json \<lparr>status = ''error'',
            errors = Some (validateRows 0 sixRows),
            summary = Some \<lparr>timePeriod = ''Sample period'', dataPoints = 6, channels = 1\<rparr>,
            preview = Some [exampleRow, exampleRow, exampleRow, exampleRow, exampleRow],
            columns = Some exampleColumns\<rparr> \<and>
   missingColumns exampleColumns = [] \<and>
   take (min 5 (length sixRows)) sixRows = [exampleRow, exampleRow, exampleRow, exampleRow, exampleRow]"
  using preview_is_first_rows[OF analyzeData_sixRows] analyzeData_sixRows
    missingColumns_exampleColumns by simp

section \<open>Status, error rows and the empty file\<close>

text \<open>
  C4. Whenever the handler answers with an analysis result, the status is "error" exactly
  when the result carries a non-empty error list, and "success" exactly when the errors
  field is absent; there is no third status, and "success" is the answer exactly when no
  required column is missing and no row pushed an error.
\<close>

theorem status_error_iff_errors:
  assumes "fst (analyzeData st now later rows cols) = Json res"
  shows "(status res = ''error'' \<longleftrightarrow> (\<exists>es. errors res = Some es \<and> es \<noteq> [])) \<and>
         (status res = ''success'' \<longleftrightarrow> errors res = None) \<and>
         (status res = ''error'' \<or> status res = ''success'') \<and>
         (status res = ''success'' \<longleftrightarrow> missingColumns cols = [] \<and> validateRows 0 rows = [])"
proof (cases "missingColumns cols = []")
  case False
  then show ?thesis using assms by (auto simp: analyzeData_missing)
next
  case True
  show ?thesis
  proof (cases "users st 1")
    case None
    then show ?thesis using True assms by (simp add: analyzeData_no_user)
  next
    case (Some u)
    then have "res = buildResponse (validateRows 0 rows) rows cols"
      using True assms analyzeData_user(1)[OF True Some, of now later rows] by simp
    then show ?thesis using True by (auto simp: buildResponse_def)
  qed
qed

theorem status_error_iff_errors_witness:
  "fst (analyzeData initialStorage 0 1 [exampleRow] exampleColumns) =
     Json \<lparr>status = ''error'',
            errors = Some [\<lparr>row = 2, column = ''Spend'',
                             message = ''Invalid spend format (must be numeric)''\<rparr>,
                           \<lparr>row = 2, column = ''Channel'',
                             message = ''Channel name contains special characters''\<rparr>],
            summary = Some \<lparr>timePeriod = ''Sample period'', dataPoints = 1, channels = 1\<rparr>,
            preview = Some [exampleRow],
            columns = Some exampleColumns\<rparr> \<and>
   validateRows 0 [exampleRow] \<noteq> []"
  using status_error_iff_errors[OF analyzeData_example] analyzeData_example
    missingColumns_exampleColumns by simp

text \<open>
  C9. Every error of an analysis result has row 0 or a row of at least 2: the errors of the
  required-column check all have row 0, and an error of the row loop has the row's
  zero-based index plus 2. No error has row 1.
\<close>

theorem error_rows_skip_header:
  assumes "fst (analyzeData st now later rows cols) = Json res"
    and "errors res = Some es"
  shows "(\<forall>e\<in>set es. row e = 0 \<or> 2 \<le> row e) \<and>
         (missingColumns cols \<noteq> [] \<longrightarrow> (\<forall>e\<in>set es. row e = 0)) \<and>
         (missingColumns cols = [] \<longrightarrow> (\<forall>e\<in>set es. \<exists>i<length rows. row e = i + 2))"
proof (cases "missingColumns cols = []")
  case False
  then show ?thesis using assms by (auto simp: analyzeData_missing missingColumnError_def)
next
  case True
  show ?thesis
  proof (cases "users st 1")
    case None
    then show ?thesis using True assms by (simp add: analyzeData_no_user)
  next
    case (Some u)
    then have "res = buildResponse (validateRows 0 rows) rows cols"
      using True assms analyzeData_user(1)[OF True Some, of now later rows] by simp
    then have es: "es = validateRows 0 rows"
      using assms(2) by (auto simp: buildResponse_def split: if_splits)
    have "\<exists>i<length rows. row e = i + 2" if "e \<in> set es" for e
      using that unfolding es mem_validateRows by (auto dest: validateRow_row)
    then show ?thesis using True by fastforce
  qed
qed

theorem error_rows_skip_header_witness:
  "fst (analyzeData initialStorage 0 1 [exampleRow] exampleColumns) =
     Json \<lparr>status = ''error'',
            errors = Some [\<lparr>row = 2, column = ''Spend'',
                             message = ''Invalid spend format (must be numeric)''\<rparr>,
                           \<lparr>row = 2, column = ''Channel'',
                             message = ''Channel name contains special characters''\<rparr>],
            summary = Some \<lparr>timePeriod = ''Sample period'', dataPoints = 1, channels = 1\<rparr>,
            preview = Some [exampleRow],
            columns = Some exampleColumns\<rparr> \<and>
   list_all (\<lambda>e. row e = 0 \<or> 2 \<le> row e)
     [\<lparr>row = 2, column = ''Spend'',
        message = ''Invalid spend format (must be numeric)''\<rparr>,
      \<lparr>row = 2, column = ''Channel'',
        message = ''Channel name contains special characters''\<rparr>]"
  using error_rows_skip_header[OF analyzeData_example] analyzeData_example by simp

text \<open>
  C10. With no rows at all and a header that holds the four required columns (in any
  letter case), the handler, run for the existing user, answers "success" without errors,
  with 0 data points, 0 channels and an empty preview.
\<close>

theorem header_only_file_succeeds:
  assumes "set requiredColumns \<subseteq> set (map toLowerCase cols)"
    and "users st 1 = Some u"
  shows "fst (analyzeData st now later [] cols) =
           Json \<lparr>status = ''success'', errors = None,
                  summary = Some \<lparr>timePeriod = ''Sample period'', dataPoints = 0, channels = 0\<rparr>,
                  preview = Some [], columns = Some cols\<rparr>"
proof -
  have "missingColumns cols = []" using assms(1) by (simp add: missingColumns_Nil_iff)
  then show ?thesis
    using analyzeData_user(1)[OF _ assms(2), of cols now later "[]"]
    by (simp add: buildResponse_def channelCount_def)
qed

theorem header_only_file_succeeds_witness:
  "set requiredColumns \<subseteq> set (map toLowerCase exampleColumns) \<and>
   users initialStorage 1 \<noteq> None \<and>
   fst (analyzeData initialStorage 0 1 [] exampleColumns) =
     Json \<lparr>status = ''success'', errors = None,
            summary = Some \<lparr>timePeriod = ''Sample period'', dataPoints = 0, channels = 0\<rparr>,
            preview = Some [], columns = Some exampleColumns\<rparr>"
proof -
  have h: "set requiredColumns \<subseteq> set (map toLowerCase exampleColumns)"
    using missingColumns_exampleColumns by (simp add: missingColumns_Nil_iff)
  show ?thesis
    using header_only_file_succeeds[OF h users_initialStorage, of 0 1] h users_initialStorage
    by simp
qed

text \<open>
  C8. Running the handler again on the same rows and columns, in the storage the first run
  left and at any later time, gives the same answer as the first run.
\<close>

theorem analysis_is_repeatable:
  "fst (analyzeData (snd (analyzeData st now later rows cols)) now' later' rows cols) =
   fst (analyzeData st now later rows cols)"
proof (cases "missingColumns cols = []")
  case False
  then show ?thesis by (simp add: analyzeData_missing)
next
  case True
  show ?thesis
  proof (cases "users st 1")
    case None
    then show ?thesis using True by (simp add: analyzeData_no_user)
  next
    case (Some u)
    have "users (snd (analyzeData st now later rows cols)) 1 = Some u"
      using Some by (simp add: users_analyzeData)
    then show ?thesis
      using True Some by (simp add: analyzeData_user(1))
  qed
qed

theorem analysis_is_repeatable_witness:
  "fst (analyzeData (snd (analyzeData initialStorage 0 1 [exampleRow] exampleColumns)) 7 9
          [exampleRow] exampleColumns) =
     Json \<lparr>status = ''error'',
            errors = Some [\<lparr>row = 2, column = ''Spend'',
                             message = ''Invalid spend format (must be numeric)''\<rparr>,
                           \<lparr>row = 2, column = ''Channel'',
                             message = ''Channel name contains special characters''\<rparr>],
            summary = Some \<lparr>timePeriod = ''Sample period'', dataPoints = 1, channels = 1\<rparr>,
            preview = Some [exampleRow],
            columns = Some exampleColumns\<rparr>"
  using analysis_is_repeatable[of initialStorage 0 1 "[exampleRow]" exampleColumns 7 9]
    analyzeData_example by simp


section \<open>The checks of one row\<close>

text \<open>
  C5, as stated, fails. The value \<^verbatim>\<open>$\<close> is not empty; without the \<^verbatim>\<open>$\<close> it is the empty
  text, which is not numeric; and the handler reports no spend error for the row: the
  answer is "success". (The same holds for a lone comma or blank, and for texts such as
  \<^verbatim>\<open>Infinity\<close> and \<^verbatim>\<open>0x1F\<close>.)
\<close>

theorem dollar_sign_alone_is_accepted:
  "spendCol dollarOnlyRow = Some ''Spend'' \<and>
   rowGet dollarOnlyRow ''Spend'' = CStr ''$'' \<and>
   stripCurrency ''$'' = [] \<and>
   \<not> specNumericText (stripCurrency ''$'') \<and>
   fst (analyzeData initialStorage 0 1 [dollarOnlyRow] exampleColumns) =
     Json \<lparr>status = ''success'', errors = None,
            summary = Some \<lparr>timePeriod = ''Sample period'', dataPoints = 1, channels = 1\<rparr>,
            preview = Some [dollarOnlyRow],
            columns = Some exampleColumns\<rparr>"
  by code_simp

text \<open>
  C5, amended. For the existing user and a file with all required columns, take a row
  (index i) in which a spend column resolves (the first key that lower-cases to "spend"
  or whose lower-cased name contains "cost"). Among the errors of the result, those of
  this row (row i + 2) with a spend message are: exactly the error "Missing spend value"
  for that column when the value is \<^verbatim>\<open>undefined\<close>, \<^verbatim>\<open>null\<close> or the empty string; exactly
  the error "Invalid spend format (must be numeric)" when the value is not empty and
  JavaScript's \<^verbatim>\<open>Number\<close> gives NaN for its text without \<^verbatim>\<open>$\<close> and commas; none
  otherwise. For a text value, \<^verbatim>\<open>Number\<close> gives NaN exactly when the stripped text is
  no \<^verbatim>\<open>StringNumericLiteral\<close>. So a value that is a plain decimal number after
  stripping never has a spend error; and neither has a non-empty value whose stripped
  text is empty or white space only, which \<^verbatim>\<open>Number\<close> reads as 0.
\<close>

theorem spend_value_check:
  assumes "missingColumns cols = []" and "users st 1 = Some u"
    and "i < length rows" and "spendCol (rows ! i) = Some sc"
  shows "\<exists>res. fst (analyzeData st now later rows cols) = Json res \<and>
           {e \<in> set (errorsOrEmpty res).
              row e = i + 2 \<and>
              (message e = ''Missing spend value'' \<or>
               message e = ''Invalid spend format (must be numeric)'')} =
           (if rowGet (rows ! i) sc = CUndefined \<or> rowGet (rows ! i) sc = CNull \<or>
               rowGet (rows ! i) sc = CStr []
            then {\<lparr>row = i + 2, column = sc, message = ''Missing spend value''\<rparr>}
            else if spendIsNaN (rowGet (rows ! i) sc)
            then {\<lparr>row = i + 2, column = sc,
                    message = ''Invalid spend format (must be numeric)''\<rparr>}
            else {}) \<and>
           (\<forall>s. spendIsNaN (CStr s) \<longleftrightarrow>
                  \<not> stringNumericLiteral (filter (\<lambda>c. c \<noteq> CHR ''$'' \<and> c \<noteq> CHR '','') s)) \<and>
           (\<forall>s. rowGet (rows ! i) sc = CStr s \<and>
                 specNumericText (filter (\<lambda>c. c \<noteq> CHR ''$'' \<and> c \<noteq> CHR '','') s) \<longrightarrow>
                 {e \<in> set (errorsOrEmpty res).
                    row e = i + 2 \<and>
                    (message e = ''Missing spend value'' \<or>
                     message e = ''Invalid spend format (must be numeric)'')} = {}) \<and>
           (\<forall>s. rowGet (rows ! i) sc = CStr s \<and> s \<noteq> [] \<and>
                 trimStart (filter (\<lambda>c. c \<noteq> CHR ''$'' \<and> c \<noteq> CHR '','') s) = [] \<longrightarrow>
                 {e \<in> set (errorsOrEmpty res).
                    row e = i + 2 \<and>
                    (message e = ''Missing spend value'' \<or>
                     message e = ''Invalid spend format (must be numeric)'')} = {}) \<and>
           sc \<in> set (objectKeys (rows ! i)) \<and>
           (toLowerCase sc = ''spend'' \<or> includesStr (toLowerCase sc) ''cost'')"
proof -
  let ?res = "buildResponse (validateRows 0 rows) rows cols"
  let ?E = "{e \<in> set (errorsOrEmpty ?res).
              row e = i + 2 \<and>
              (message e = ''Missing spend value'' \<or>
               message e = ''Invalid spend format (must be numeric)'')}"
  let ?strip = "filter (\<lambda>c. c \<noteq> CHR ''$'' \<and> c \<noteq> CHR '','')"
  have r: "fst (analyzeData st now later rows cols) = Json ?res"
    using assms(1,2) by (rule analyzeData_user(1))
  have k: "sc \<in> set (objectKeys (rows ! i)) \<and>
           (toLowerCase sc = ''spend'' \<or> includesStr (toLowerCase sc) ''cost'')"
    using assms(4) by (auto simp: spendCol_def find_Some_iff)
  have "{e \<in> set (validateRows 0 rows).
              row e = i + 2 \<and>
              (message e = ''Missing spend value'' \<or>
               message e = ''Invalid spend format (must be numeric)'')} =
        {e \<in> {e \<in> set (validateRows 0 rows). row e = i + 2}.
              message e = ''Missing spend value'' \<or>
              message e = ''Invalid spend format (must be numeric)''}"
    by blast
  also have "\<dots> = set (spendErrors i (rows ! i))"
    unfolding validateRows_at_row[OF assms(3)] by (rule spend_errors_of_row)
  finally have E: "?E = set (spendErrors i (rows ! i))"
    by (simp add: errorsOrEmpty_buildResponse)
  have c: "set (spendErrors i (rows ! i)) =
           (if rowGet (rows ! i) sc = CUndefined \<or> rowGet (rows ! i) sc = CNull \<or>
               rowGet (rows ! i) sc = CStr []
            then {\<lparr>row = i + 2, column = sc, message = ''Missing spend value''\<rparr>}
            else if spendIsNaN (rowGet (rows ! i) sc)
            then {\<lparr>row = i + 2, column = sc,
                    message = ''Invalid spend format (must be numeric)''\<rparr>}
            else {})"
    using assms(4) by (simp add: spendErrors_def Let_def)
  have n: "spendIsNaN (CStr s) \<longleftrightarrow> \<not> stringNumericLiteral (?strip s)" for s
    by (simp add: spendIsNaN_def stringIsNaN_def stripCurrency_def)
  have ok: "set (spendErrors i (rows ! i)) = {}"
    if "rowGet (rows ! i) sc = CStr s" "s \<noteq> []" "stringNumericLiteral (?strip s)" for s
    unfolding c using that by (simp add: n)
  have plain: "set (spendErrors i (rows ! i)) = {}"
    if "rowGet (rows ! i) sc = CStr s \<and> specNumericText (?strip s)" for s
  proof -
    have "?strip s \<noteq> []" using that specNumericText_literal(3) by blast
    then have "s \<noteq> []" by auto
    moreover have "stringNumericLiteral (?strip s)"
      using that by (simp add: specNumericText_accepted)
    ultimately show ?thesis using that ok by blast
  qed
  have blank: "set (spendErrors i (rows ! i)) = {}"
    if "rowGet (rows ! i) sc = CStr s \<and> s \<noteq> [] \<and> trimStart (?strip s) = []" for s
    using that ok blank_accepted by blast
  show ?thesis
  proof (intro exI conjI allI impI)
    show "fst (analyzeData st now later rows cols) = Json ?res" by (rule r)
    show "?E = (if rowGet (rows ! i) sc = CUndefined \<or> rowGet (rows ! i) sc = CNull \<or>
               rowGet (rows ! i) sc = CStr []
            then {\<lparr>row = i + 2, column = sc, message = ''Missing spend value''\<rparr>}
            else if spendIsNaN (rowGet (rows ! i) sc)
            then {\<lparr>row = i + 2, column = sc,
                    message = ''Invalid spend format (must be numeric)''\<rparr>}
            else {})"
      unfolding E by (rule c)
    show "sc \<in> set (objectKeys (rows ! i))"
      and "toLowerCase sc = ''spend'' \<or> includesStr (toLowerCase sc) ''cost''"
      using k by simp_all
  next
    fix s show "spendIsNaN (CStr s) \<longleftrightarrow> \<not> stringNumericLiteral (?strip s)" by (rule n)
  next
    fix s assume "rowGet (rows ! i) sc = CStr s \<and> specNumericText (?strip s)"
    then show "?E = {}" unfolding E by (rule plain)
  next
    fix s assume "rowGet (rows ! i) sc = CStr s \<and> s \<noteq> [] \<and> trimStart (?strip s) = []"
    then show "?E = {}" unfolding E by (rule blank)
  qed
qed

theorem spend_value_check_witness:
  "missingColumns exampleColumns = [] \<and> users initialStorage 1 \<noteq> None \<and>
   (2::nat) < length threeRows \<and>
   spendCol (threeRows ! 0) = Some ''Spend'' \<and>
   spendCol (threeRows ! 1) = Some ''Spend'' \<and>
   spendCol (threeRows ! 2) = Some ''Spend'' \<and>
   rowGet (threeRows ! 0) ''Spend'' = CStr ''$1,200.50'' \<and>
   specNumericText (filter (\<lambda>c. c \<noteq> CHR ''$'' \<and> c \<noteq> CHR '','') ''$1,200.50'') \<and>
   (\<exists>res. fst (analyzeData initialStorage 0 1 threeRows exampleColumns) = Json res \<and>
      {e \<in> set (errorsOrEmpty res).
         row e = 0 + 2 \<and> (message e = ''Missing spend value'' \<or>
                          message e = ''Invalid spend format (must be numeric)'')} = {} \<and>
      {e \<in> set (errorsOrEmpty res).
         row e = 1 + 2 \<and> (message e = ''Missing spend value'' \<or>
                          message e = ''Invalid spend format (must be numeric)'')} =
        {\<lparr>row = 1 + 2, column = ''Spend'',
           message = ''Invalid spend format (must be numeric)''\<rparr>} \<and>
      {e \<in> set (errorsOrEmpty res).
         row e = 2 + 2 \<and> (message e = ''Missing spend value'' \<or>
                          message e = ''Invalid spend format (must be numeric)'')} =
        {\<lparr>row = 2 + 2, column = ''Spend'', message = ''Missing spend value''\<rparr>}) \<and>
   spendCol ([dollarOnlyRow] ! 0) = Some ''Spend'' \<and>
   rowGet ([dollarOnlyRow] ! 0) ''Spend'' = CStr ''$'' \<and>
   trimStart (filter (\<lambda>c. c \<noteq> CHR ''$'' \<and> c \<noteq> CHR '','') ''$'') = [] \<and>
   (\<exists>res. fst (analyzeData initialStorage 0 1 [dollarOnlyRow] exampleColumns) = Json res \<and>
      {e \<in> set (errorsOrEmpty res).
         row e = 0 + 2 \<and> (message e = ''Missing spend value'' \<or>
                          message e = ''Invalid spend format (must be numeric)'')} = {})"
proof -
  have l: "0 < length threeRows" "1 < length threeRows" "2 < length threeRows"
    by (simp_all add: threeRows_cells(1))
  note t = spend_value_check[OF missingColumns_exampleColumns users_initialStorage,
      of _ threeRows _ 0 1]
  obtain r0 where f0: "fst (analyzeData initialStorage 0 1 threeRows exampleColumns) = Json r0"
    and p0: "\<forall>s. rowGet (threeRows ! 0) ''Spend'' = CStr s \<and>
                 specNumericText (filter (\<lambda>c. c \<noteq> CHR ''$'' \<and> c \<noteq> CHR '','') s) \<longrightarrow>
                 {e \<in> set (errorsOrEmpty r0).
                    row e = 0 + 2 \<and>
                    (message e = ''Missing spend value'' \<or>
                     message e = ''Invalid spend format (must be numeric)'')} = {}"
    using t[OF l(1) threeRows_cells(2)] by blast
  have e0: "{e \<in> set (errorsOrEmpty r0).
         row e = 0 + 2 \<and> (message e = ''Missing spend value'' \<or>
                          message e = ''Invalid spend format (must be numeric)'')} = {}"
    using p0 threeRows_cells(5) dollarOnlyRow_cells(4) by blast
  obtain r1 where f1: "fst (analyzeData initialStorage 0 1 threeRows exampleColumns) = Json r1"
    and c1: "{e \<in> set (errorsOrEmpty r1).
         row e = 1 + 2 \<and> (message e = ''Missing spend value'' \<or>
                          message e = ''Invalid spend format (must be numeric)'')} =
        (if rowGet (threeRows ! 1) ''Spend'' = CUndefined \<or> rowGet (threeRows ! 1) ''Spend'' = CNull \<or>
               rowGet (threeRows ! 1) ''Spend'' = CStr []
            then {\<lparr>row = 1 + 2, column = ''Spend'', message = ''Missing spend value''\<rparr>}
            else if spendIsNaN (rowGet (threeRows ! 1) ''Spend'')
            then {\<lparr>row = 1 + 2, column = ''Spend'',
                    message = ''Invalid spend format (must be numeric)''\<rparr>}
            else {})"
    using t[OF l(2) threeRows_cells(3)] by blast
  have e1: "{e \<in> set (errorsOrEmpty r1).
         row e = 1 + 2 \<and> (message e = ''Missing spend value'' \<or>
                          message e = ''Invalid spend format (must be numeric)'')} =
        {\<lparr>row = 1 + 2, column = ''Spend'',
           message = ''Invalid spend format (must be numeric)''\<rparr>}"
    unfolding c1 threeRows_cells(6) by (simp add: spend_examples)
  obtain r2 where f2: "fst (analyzeData initialStorage 0 1 threeRows exampleColumns) = Json r2"
    and c2: "{e \<in> set (errorsOrEmpty r2).
         row e = 2 + 2 \<and> (message e = ''Missing spend value'' \<or>
                          message e = ''Invalid spend format (must be numeric)'')} =
        (if rowGet (threeRows ! 2) ''Spend'' = CUndefined \<or> rowGet (threeRows ! 2) ''Spend'' = CNull \<or>
               rowGet (threeRows ! 2) ''Spend'' = CStr []
            then {\<lparr>row = 2 + 2, column = ''Spend'', message = ''Missing spend value''\<rparr>}
            else if spendIsNaN (rowGet (threeRows ! 2) ''Spend'')
            then {\<lparr>row = 2 + 2, column = ''Spend'',
                    message = ''Invalid spend format (must be numeric)''\<rparr>}
            else {})"
    using t[OF l(3) threeRows_cells(4)] by blast
  have e2: "{e \<in> set (errorsOrEmpty r2).
         row e = 2 + 2 \<and> (message e = ''Missing spend value'' \<or>
                          message e = ''Invalid spend format (must be numeric)'')} =
        {\<lparr>row = 2 + 2, column = ''Spend'', message = ''Missing spend value''\<rparr>}"
    unfolding c2 threeRows_cells(7) by simp
  have ld: "0 < length [dollarOnlyRow]" by simp
  obtain rd where fd: "fst (analyzeData initialStorage 0 1 [dollarOnlyRow] exampleColumns) = Json rd"
    and pd: "\<forall>s. rowGet ([dollarOnlyRow] ! 0) ''Spend'' = CStr s \<and> s \<noteq> [] \<and>
                 trimStart (filter (\<lambda>c. c \<noteq> CHR ''$'' \<and> c \<noteq> CHR '','') s) = [] \<longrightarrow>
                 {e \<in> set (errorsOrEmpty rd).
                    row e = 0 + 2 \<and>
                    (message e = ''Missing spend value'' \<or>
                     message e = ''Invalid spend format (must be numeric)'')} = {}"
    using spend_value_check[OF missingColumns_exampleColumns users_initialStorage ld
        dollarOnlyRow_cells(1), of 0 1] by blast
  have "''$'' \<noteq> []" by simp
  then have ed: "{e \<in> set (errorsOrEmpty rd).
         row e = 0 + 2 \<and> (message e = ''Missing spend value'' \<or>
                          message e = ''Invalid spend format (must be numeric)'')} = {}"
    using pd dollarOnlyRow_cells(2,3) by blast
  have "r1 = r0" "r2 = r0" using f0 f1 f2 by simp_all
  then have three: "\<exists>res. fst (analyzeData initialStorage 0 1 threeRows exampleColumns) = Json res \<and>
      {e \<in> set (errorsOrEmpty res).
         row e = 0 + 2 \<and> (message e = ''Missing spend value'' \<or>
                          message e = ''Invalid spend format (must be numeric)'')} = {} \<and>
      {e \<in> set (errorsOrEmpty res).
         row e = 1 + 2 \<and> (message e = ''Missing spend value'' \<or>
                          message e = ''Invalid spend format (must be numeric)'')} =
        {\<lparr>row = 1 + 2, column = ''Spend'',
           message = ''Invalid spend format (must be numeric)''\<rparr>} \<and>
      {e \<in> set (errorsOrEmpty res).
         row e = 2 + 2 \<and> (message e = ''Missing spend value'' \<or>
                          message e = ''Invalid spend format (must be numeric)'')} =
        {\<lparr>row = 2 + 2, column = ''Spend'', message = ''Missing spend value''\<rparr>}"
    using f0 e0 e1 e2 by blast
  have dollar: "\<exists>res. fst (analyzeData initialStorage 0 1 [dollarOnlyRow] exampleColumns) = Json res \<and>
      {e \<in> set (errorsOrEmpty res).
         row e = 0 + 2 \<and> (message e = ''Missing spend value'' \<or>
                          message e = ''Invalid spend format (must be numeric)'')} = {}"
    using fd ed by blast
  have u: "users initialStorage 1 \<noteq> None" by (simp add: users_initialStorage)
  show ?thesis
    by (intro conjI missingColumns_exampleColumns u l(3) threeRows_cells(2,3,4,5)
        dollarOnlyRow_cells(1,2,3,4) three dollar)
qed

text \<open>
  C6. For the existing user and a file with all required columns, take a row (index i)
  in which a channel column resolves and holds text. If every character of the text is a
  letter a-z or A-Z, a digit, a space, an underscore or a hyphen, the result has no error
  "Channel name contains special characters" for row i + 2; otherwise it has exactly one,
  for that row and column. A channel cell that is not text is not checked and gives no
  such error.
\<close>

theorem channel_name_check:
  assumes "missingColumns cols = []" and "users st 1 = Some u"
    and "i < length rows" and "channelCol (rows ! i) = Some cc"
  shows "\<exists>res. fst (analyzeData st now later rows cols) = Json res \<and>
           cc \<in> set (objectKeys (rows ! i)) \<and> toLowerCase cc = ''channel'' \<and>
           (\<forall>s. rowGet (rows ! i) cc = CStr s \<longrightarrow>
              {e \<in> set (errorsOrEmpty res).
                 row e = i + 2 \<and> message e = ''Channel name contains special characters''} =
              (if \<forall>c\<in>set s. c \<in> set ''abcdefghijklmnopqrstuvwxyzABCDEFGHIJKLMNOPQRSTUVWXYZ0123456789 _-''
               then {}
               else {\<lparr>row = i + 2, column = cc,
                       message = ''Channel name contains special characters''\<rparr>})) \<and>
           ((\<forall>s. rowGet (rows ! i) cc \<noteq> CStr s) \<longrightarrow>
              {e \<in> set (errorsOrEmpty res).
                 row e = i + 2 \<and> message e = ''Channel name contains special characters''} = {})"
proof -
  let ?res = "buildResponse (validateRows 0 rows) rows cols"
  have r: "fst (analyzeData st now later rows cols) = Json ?res"
    using assms(1,2) by (rule analyzeData_user(1))
  have k: "cc \<in> set (objectKeys (rows ! i)) \<and> toLowerCase cc = ''channel''"
    using assms(4) by (auto simp: channelCol_def find_Some_iff)
  have "{e \<in> set (validateRows 0 rows).
              row e = i + 2 \<and> message e = ''Channel name contains special characters''} =
        {e \<in> {e \<in> set (validateRows 0 rows). row e = i + 2}.
              message e = ''Channel name contains special characters''}"
    by blast
  also have "\<dots> = set (channelErrors i (rows ! i))"
    unfolding validateRows_at_row[OF assms(3)] by (rule channel_errors_of_row)
  finally have c: "{e \<in> set (errorsOrEmpty ?res).
              row e = i + 2 \<and> message e = ''Channel name contains special characters''} =
        set (channelErrors i (rows ! i))"
    by (simp add: errorsOrEmpty_buildResponse)
  have t: "set (channelErrors i (rows ! i)) =
        (if \<forall>c\<in>set s. c \<in> set ''abcdefghijklmnopqrstuvwxyzABCDEFGHIJKLMNOPQRSTUVWXYZ0123456789 _-''
         then {}
         else {\<lparr>row = i + 2, column = cc,
                 message = ''Channel name contains special characters''\<rparr>})"
    if "rowGet (rows ! i) cc = CStr s" for s
    using assms(4) that
    by (simp add: channelErrors_def hasSpecialCharacters_def list_ex_iff channelCharAllowed_def)
  have n: "set (channelErrors i (rows ! i)) = {}" if "\<forall>s. rowGet (rows ! i) cc \<noteq> CStr s"
    using assms(4) that by (cases "rowGet (rows ! i) cc") (simp_all add: channelErrors_def)
  show ?thesis
  proof (intro exI conjI allI impI)
    show "fst (analyzeData st now later rows cols) = Json ?res" by (rule r)
    show "cc \<in> set (objectKeys (rows ! i))" and "toLowerCase cc = ''channel''"
      using k by simp_all
  next
    fix s assume "rowGet (rows ! i) cc = CStr s"
    then show "{e \<in> set (errorsOrEmpty ?res).
                 row e = i + 2 \<and> message e = ''Channel name contains special characters''} =
              (if \<forall>c\<in>set s. c \<in> set ''abcdefghijklmnopqrstuvwxyzABCDEFGHIJKLMNOPQRSTUVWXYZ0123456789 _-''
               then {}
               else {\<lparr>row = i + 2, column = cc,
                       message = ''Channel name contains special characters''\<rparr>})"
      unfolding c by (rule t)
  next
    assume "\<forall>s. rowGet (rows ! i) cc \<noteq> CStr s"
    then show "{e \<in> set (errorsOrEmpty ?res).
                 row e = i + 2 \<and> message e = ''Channel name contains special characters''} = {}"
      unfolding c by (rule n)
  qed
qed

theorem channel_name_check_witness:
  "missingColumns exampleColumns = [] \<and> users initialStorage 1 \<noteq> None \<and>
   (1::nat) < length threeRows \<and>
   channelCol (threeRows ! 0) = Some ''Channel'' \<and>
   rowGet (threeRows ! 0) ''Channel'' = CStr ''Paid Search'' \<and>
   channelCol (threeRows ! 1) = Some ''Channel'' \<and>
   rowGet (threeRows ! 1) ''Channel'' = CStr ''Search!!'' \<and>
   (\<exists>res. fst (analyzeData initialStorage 0 1 threeRows exampleColumns) = Json res \<and>
      {e \<in> set (errorsOrEmpty res).
         row e = 0 + 2 \<and> message e = ''Channel name contains special characters''} = {} \<and>
      {e \<in> set (errorsOrEmpty res).
         row e = 1 + 2 \<and> message e = ''Channel name contains special characters''} =
        {\<lparr>row = 1 + 2, column = ''Channel'',
           message = ''Channel name contains special characters''\<rparr>})"
proof -
  have l: "0 < length threeRows" "1 < length threeRows"
    by (simp_all add: threeRows_cells(1))
  note t = channel_name_check[OF missingColumns_exampleColumns users_initialStorage,
      of _ threeRows _ 0 1]
  obtain r0 where f0: "fst (analyzeData initialStorage 0 1 threeRows exampleColumns) = Json r0"
    and e0: "{e \<in> set (errorsOrEmpty r0).
         row e = 0 + 2 \<and> message e = ''Channel name contains special characters''} = {}"
    using t[OF l(1) threeRows_cells(8)] threeRows_cells(10) by auto
  obtain r1 where f1: "fst (analyzeData initialStorage 0 1 threeRows exampleColumns) = Json r1"
    and e1: "{e \<in> set (errorsOrEmpty r1).
         row e = 1 + 2 \<and> message e = ''Channel name contains special characters''} =
        {\<lparr>row = 1 + 2, column = ''Channel'',
           message = ''Channel name contains special characters''\<rparr>}"
    using t[OF l(2) threeRows_cells(9)] threeRows_cells(11) by auto
  have "r1 = r0" using f0 f1 by simp
  then show ?thesis
    using f0 e0 e1 l(2) missingColumns_exampleColumns users_initialStorage
      threeRows_cells(8,9,10,11)
    by blast
qed

section \<open>The channel count\<close>

text \<open>
  C7, as stated, fails: a spreadsheet row whose channel cell is the number 0 has a
  non-empty channel value, and the handler counts 0 channels.
\<close>

theorem zero_channel_is_not_counted:
  "fst (analyzeData initialStorage 0 1 [zeroChannelRow] exampleColumns) =
     Json \<lparr>status = ''success'', errors = None,
            summary = Some \<lparr>timePeriod = ''Sample period'', dataPoints = 1, channels = 0\<rparr>,
            preview = Some [zeroChannelRow],
            columns = Some exampleColumns\<rparr> \<and>
   specChannelCount [zeroChannelRow] = 1"
  by code_simp

text \<open>
  C7, amended. For the existing user and a file with all required columns,
  \<^verbatim>\<open>summary.channels\<close> is the number of distinct truthy channel values of the rows (the
  channel column resolved as in the row checks; a row without one gives \<^verbatim>\<open>null\<close>), and
  every permutation of the rows gives the same count. When no channel value is 0, NaN or
  \<^verbatim>\<open>false\<close> (as in every delimited text file, whose cells are text), that is the
  number of distinct non-empty channel values.
\<close>

theorem channel_count_distinct_truthy:
  assumes "missingColumns cols = []" and "users st 1 = Some u"
  shows "\<exists>res s. fst (analyzeData st now later rows cols) = Json res \<and> summary res = Some s \<and>
           channels s = card {v. truthy v \<and> (\<exists>r\<in>set rows. channelValue r = v)} \<and>
           (\<forall>rows'. mset rows' = mset rows \<longrightarrow>
              (\<exists>res' s'. fst (analyzeData st now later rows' cols) = Json res' \<and>
                         summary res' = Some s' \<and> channels s' = channels s)) \<and>
           ((\<forall>r\<in>set rows. truthy (channelValue r) \<or> channelValue r = CUndefined \<or>
                            channelValue r = CNull \<or> channelValue r = CStr []) \<longrightarrow>
              channels s = specChannelCount rows)"
proof -
  have r: "fst (analyzeData st now later rs cols) = Json (buildResponse (validateRows 0 rs) rs cols)" for rs
    using assms(1,2) by (rule analyzeData_user(1))
  have s: "summary (buildResponse errs rs cols) =
             Some \<lparr>timePeriod = ''Sample period'', dataPoints = length rs, channels = channelCount rs\<rparr>"
    for errs rs
    by (simp add: buildResponse_def)
  have eq: "channelCount rows = specChannelCount rows"
    if "\<forall>r\<in>set rows. truthy (channelValue r) \<or> channelValue r = CUndefined \<or>
                            channelValue r = CNull \<or> channelValue r = CStr []"
  proof -
    have "{v. truthy v \<and> (\<exists>r\<in>set rows. channelValue r = v)} =
          {v. (\<exists>r\<in>set rows. channelValue r = v) \<and> v \<noteq> CUndefined \<and> v \<noteq> CNull \<and> v \<noteq> CStr []}"
      using that truthy_nonempty by blast
    then show ?thesis by (simp only: channelCount_card specChannelCount_card)
  qed
  show ?thesis
  proof (intro exI conjI allI impI)
    show "fst (analyzeData st now later rows cols) = Json (buildResponse (validateRows 0 rows) rows cols)"
      by (rule r)
    show "summary (buildResponse (validateRows 0 rows) rows cols) =
            Some \<lparr>timePeriod = ''Sample period'', dataPoints = length rows, channels = channelCount rows\<rparr>"
      by (rule s)
    show "channels \<lparr>timePeriod = ''Sample period'', dataPoints = length rows, channels = channelCount rows\<rparr> =
            card {v. truthy v \<and> (\<exists>r\<in>set rows. channelValue r = v)}"
      by (simp add: channelCount_card)
  next
    fix rows' assume "mset rows' = mset rows"
    show "fst (analyzeData st now later rows' cols) = Json (buildResponse (validateRows 0 rows') rows' cols)"
      by (rule r)
    show "summary (buildResponse (validateRows 0 rows') rows' cols) =
            Some \<lparr>timePeriod = ''Sample period'', dataPoints = length rows', channels = channelCount rows'\<rparr>"
      by (rule s)
    show "channels \<lparr>timePeriod = ''Sample period'', dataPoints = length rows', channels = channelCount rows'\<rparr> =
          channels \<lparr>timePeriod = ''Sample period'', dataPoints = length rows, channels = channelCount rows\<rparr>"
      using channelCount_mset[OF \<open>mset rows' = mset rows\<close>] by simp
  next
    assume "\<forall>r\<in>set rows. truthy (channelValue r) \<or> channelValue r = CUndefined \<or>
                            channelValue r = CNull \<or> channelValue r = CStr []"
    then have "channelCount rows = specChannelCount rows" by (rule eq)
    then show "channels \<lparr>timePeriod = ''Sample period'', dataPoints = length rows, channels = channelCount rows\<rparr> =
            specChannelCount rows"
      by simp
  qed
qed

theorem channel_count_distinct_truthy_witness:
  "missingColumns exampleColumns = [] \<and> users initialStorage 1 \<noteq> None \<and>
   mset (rev repeatedChannelRows) = mset repeatedChannelRows \<and>
   card {v. truthy v \<and> (\<exists>r\<in>set repeatedChannelRows. channelValue r = v)} = 2 \<and>
   specChannelCount repeatedChannelRows = 2 \<and>
   (\<exists>res s. fst (analyzeData initialStorage 0 1 (rev repeatedChannelRows) exampleColumns) = Json res \<and>
            summary res = Some s \<and> channels s = 2)"
proof -
  obtain res s where
    f: "fst (analyzeData initialStorage 0 1 repeatedChannelRows exampleColumns) = Json res" and
    s: "summary res = Some s" and
    c: "channels s = card {v. truthy v \<and> (\<exists>r\<in>set repeatedChannelRows. channelValue r = v)}" and
    p: "\<forall>rows'. mset rows' = mset repeatedChannelRows \<longrightarrow>
              (\<exists>res' s'. fst (analyzeData initialStorage 0 1 rows' exampleColumns) = Json res' \<and>
                         summary res' = Some s' \<and> channels s' = channels s)"
    using channel_count_distinct_truthy[OF missingColumns_exampleColumns users_initialStorage,
        of 0 1 repeatedChannelRows] by blast
  have two: "channels s = 2"
    using f s unfolding analyzeData_repeatedChannelRows by auto
  have m: "mset (rev repeatedChannelRows) = mset repeatedChannelRows" by simp
  have sp: "specChannelCount repeatedChannelRows = 2" by code_simp
  show ?thesis
    using p[rule_format, OF m] c two m sp missingColumns_exampleColumns users_initialStorage
    by auto
qed

section \<open>What the handler saves\<close>

text \<open>
  C2, as stated, fails. The handler saves the error list too: after the analysis of the
  malformed row the onboarding record holds both errors under \<^verbatim>\<open>dataErrors\<close>. And the
  answer of the required-column check is sent before anything is saved: analysed after a
  successful run, a file without the spend column gets the status "error" while the
  record still says "success".
\<close>

theorem errors_are_stored_and_early_return_stores_nothing:
  "jsGet (onboardingProgress (snd (analyzeData initialStorage 0 1 [exampleRow] exampleColumns)))
      ''dataErrors'' =
     JErrors [\<lparr>row = 2, column = ''Spend'',
                message = ''Invalid spend format (must be numeric)''\<rparr>,
              \<lparr>row = 2, column = ''Channel'',
                message = ''Channel name contains special characters''\<rparr>] \<and>
   jsGet (onboardingProgress storageAfterSuccess) ''dataStatus'' = JString ''success'' \<and>
   (case fst (analyzeData storageAfterSuccess 2 3 [exampleRow] exampleColumnsNoSpend) of
      Json res \<Rightarrow> status res | Failure code msg \<Rightarrow> msg) = ''error'' \<and>
   jsGet (onboardingProgress (snd (analyzeData storageAfterSuccess 2 3 [exampleRow] exampleColumnsNoSpend)))
      ''dataStatus'' = JString ''success''"
  by code_simp

text \<open>
  C2, amended. When no required column is missing, user 1 exists and every onboarding
  record is stored under its own id, the handler answers with an analysis result and
  leaves as the record of user 1 the record it found (or a fresh one) with exactly four
  fields set: \<^verbatim>\<open>step\<close> to "analyze", \<^verbatim>\<open>dataStatus\<close> to the status of the result,
  \<^verbatim>\<open>dataErrors\<close> to the errors of the result (the empty list when it has none) and
  \<^verbatim>\<open>updatedAt\<close> to the time of the save. Summary, preview and columns are not stored,
  and the users are as before.
\<close>

theorem analysis_outcome_is_saved:
  assumes "missingColumns cols = []"
    and "users st 1 = Some u"
    and "\<forall>(k, d)\<in>set (onboardingData st). jsGet d ''id'' = k"
  shows "\<exists>res. fst (analyzeData st now later rows cols) = Json res \<and>
           getOnboardingData (snd (analyzeData st now later rows cols)) 1 =
             Some ((case getOnboardingData st 1 of
                      Some d \<Rightarrow> d
                    | None \<Rightarrow> newOnboardingData st now 1 ''analyze'')
                   (''step'' \<mapsto> JString ''analyze'',
                    ''dataStatus'' \<mapsto> JString (status res),
                    ''dataErrors'' \<mapsto> JErrors (errorsOrEmpty res),
                    ''updatedAt'' \<mapsto> JDate later)) \<and>
           users (snd (analyzeData st now later rows cols)) = users st"
proof -
  define res where "res = buildResponse (validateRows 0 rows) rows cols"
  define data :: jsobj where
    "data = [''dataStatus'' \<mapsto> JString (status res),
             ''dataErrors'' \<mapsto> JErrors (errorsOrEmpty res)]"
  have d: "data ''id'' = None" "data ''userId'' = None"
    by (simp_all add: data_def)
  obtain st' where
    s: "saveOnboardingStep st now later 1 ''analyze'' data =
          Inr (st', ((case getOnboardingData st 1 of Some d \<Rightarrow> d
                      | None \<Rightarrow> newOnboardingData st now 1 ''analyze'')(''step'' \<mapsto> JString ''analyze'') ++ data)
                    (''updatedAt'' \<mapsto> JDate later))"
    and g: "getOnboardingData st' 1 =
          Some (((case getOnboardingData st 1 of Some d \<Rightarrow> d
                      | None \<Rightarrow> newOnboardingData st now 1 ''analyze'')(''step'' \<mapsto> JString ''analyze'') ++ data)
                    (''updatedAt'' \<mapsto> JDate later))"
    using saveOnboardingStep_stored[OF assms(2) assms(3) d, of now later "''analyze''"] by blast
  have a: "analyzeData st now later rows cols = (Json res, st')"
    using assms(1) s by (simp add: analyzeData_def Let_def res_def[symmetric] data_def[symmetric])
  have m: "(b(''step'' \<mapsto> JString ''analyze'') ++ data)(''updatedAt'' \<mapsto> JDate later) =
           b(''step'' \<mapsto> JString ''analyze'',
             ''dataStatus'' \<mapsto> JString (status res),
             ''dataErrors'' \<mapsto> JErrors (errorsOrEmpty res),
             ''updatedAt'' \<mapsto> JDate later)" for b :: jsobj
    by (simp add: data_def)
  show ?thesis
    using a g users_analyzeData[of st now later rows cols] unfolding m by auto
qed

theorem analysis_outcome_is_saved_witness:
  "missingColumns exampleColumns = [] \<and>
   users storageAfterSuccess 1 \<noteq> None \<and>
   list_all (\<lambda>(k, d). jsGet d ''id'' = k) (onboardingData storageAfterSuccess) \<and>
   jsGet (onboardingProgress storageAfterSuccess) ''dataStatus'' = JString ''success'' \<and>
   jsGet (onboardingProgress (snd (analyzeData storageAfterSuccess 2 3 [exampleRow] exampleColumns)))
      ''dataStatus'' = JString ''error'' \<and>
   jsGet (onboardingProgress (snd (analyzeData storageAfterSuccess 2 3 [exampleRow] exampleColumns)))
      ''dataErrors'' =
     JErrors [\<lparr>row = 2, column = ''Spend'',
                message = ''Invalid spend format (must be numeric)''\<rparr>,
              \<lparr>row = 2, column = ''Channel'',
                message = ''Channel name contains special characters''\<rparr>] \<and>
   jsGet (onboardingProgress (snd (analyzeData storageAfterSuccess 2 3 [exampleRow] exampleColumns)))
      ''updatedAt'' = JDate 3"
proof -
  have p: "jsGet (onboardingProgress storageAfterSuccess) ''dataStatus'' = JString ''success''"
    by code_simp
  have inv: "list_all (\<lambda>(k, d). jsGet d ''id'' = k) (onboardingData storageAfterSuccess)"
    using storageAfterSuccess_inv by (simp add: list_all_iff)
  obtain res where
    f: "fst (analyzeData storageAfterSuccess 2 3 [exampleRow] exampleColumns) = Json res" and
    g: "getOnboardingData (snd (analyzeData storageAfterSuccess 2 3 [exampleRow] exampleColumns)) 1 =
          Some ((case getOnboardingData storageAfterSuccess 1 of
                   Some d \<Rightarrow> d
                 | None \<Rightarrow> newOnboardingData storageAfterSuccess 2 1 ''analyze'')
                (''step'' \<mapsto> JString ''analyze'',
                 ''dataStatus'' \<mapsto> JString (status res),
                 ''dataErrors'' \<mapsto> JErrors (errorsOrEmpty res),
                 ''updatedAt'' \<mapsto> JDate 3))"
    using analysis_outcome_is_saved[OF missingColumns_exampleColumns users_storageAfterSuccess
        storageAfterSuccess_inv, of 2 3 "[exampleRow]"] by blast
  have res: "res = \<lparr>status = ''error'',
            errors = Some [\<lparr>row = 2, column = ''Spend'',
                             message = ''Invalid spend format (must be numeric)''\<rparr>,
                           \<lparr>row = 2, column = ''Channel'',
                             message = ''Channel name contains special characters''\<rparr>],
            summary = Some \<lparr>timePeriod = ''Sample period'', dataPoints = 1, channels = 1\<rparr>,
            preview = Some [exampleRow],
            columns = Some exampleColumns\<rparr>"
    using f analyzeData_again_example by simp
  have q: "jsGet (onboardingProgress (snd (analyzeData storageAfterSuccess 2 3 [exampleRow] exampleColumns)))
      ''dataStatus'' = JString ''error''"
     "jsGet (onboardingProgress (snd (analyzeData storageAfterSuccess 2 3 [exampleRow] exampleColumns)))
      ''dataErrors'' =
     JErrors [\<lparr>row = 2, column = ''Spend'',
                message = ''Invalid spend format (must be numeric)''\<rparr>,
              \<lparr>row = 2, column = ''Channel'',
                message = ''Channel name contains special characters''\<rparr>]"
     "jsGet (onboardingProgress (snd (analyzeData storageAfterSuccess 2 3 [exampleRow] exampleColumns)))
      ''updatedAt'' = JDate 3"
    unfolding onboardingProgress_def g res by (simp_all add: jsGet_def errorsOrEmpty_def)
  show ?thesis
    using p inv q missingColumns_exampleColumns users_storageAfterSuccess by simp
qed

end
